theory Spec2Isabelle
  imports Complex_Main
begin

section \<open>Strings, numbers and errors\<close>

text \<open>
  The engine is TypeScript. A JavaScript string is a sequence of UTF-16 code units; the
  theory writes it as a \<open>string\<close> whose characters stand for code units, and covers the
  ASCII range, where \<open>toUpperCase\<close> changes the letters a..z only and the character
  classes of the patterns (\<open>\\d\<close>, \<open>[A-Z]\<close> under the \<open>i\<close> flag) are the ASCII digits and
  letters. A JavaScript number that holds an index is written as an \<open>int\<close>: the
  arithmetic of the source on such numbers is exact below \<open>2 ^ 53\<close>.

  Every failure of the source is a thrown \<open>UserError\<close> that carries a message. The
  constructors below name the failures with the words of the specification's taxonomy
  and keep the message's parameter.
\<close>

datatype error =
    InvalidFormat string      \<comment> \<open>"Invalid range format: ...", "Invalid A1 range: ...", "Invalid A1 notation: ..."\<close>
  | NegativeIndex int int     \<comment> \<open>"Row and column indices must be non-negative. ..."\<close>
  | NotFound string           \<comment> \<open>"Sheet "..." not found in spreadsheet."\<close>
  | EmptyDocument             \<comment> \<open>"Spreadsheet has no sheets."\<close>
  | SpreadsheetNotFound       \<comment> \<open>remote status 404\<close>
  | PermissionDenied          \<comment> \<open>remote status 403\<close>
  | Failed string             \<comment> \<open>any other remote failure, with its message\<close>

definition charCode :: "char \<Rightarrow> int" where
  "charCode c = of_char c"

definition fromCharCode :: "int \<Rightarrow> char" where
  "fromCharCode n = char_of n"

definition isDigit :: "char \<Rightarrow> bool" where
  "isDigit c = (48 \<le> charCode c \<and> charCode c \<le> 57)"

definition isUpper :: "char \<Rightarrow> bool" where
  "isUpper c = (65 \<le> charCode c \<and> charCode c \<le> 90)"

definition isLower :: "char \<Rightarrow> bool" where
  "isLower c = (97 \<le> charCode c \<and> charCode c \<le> 122)"

text \<open>The class \<open>[A-Z]\<close> of a pattern with the \<open>i\<close> flag.\<close>

definition isLetter :: "char \<Rightarrow> bool" where
  "isLetter c = (isUpper c \<or> isLower c)"

definition upperChar :: "char \<Rightarrow> char" where
  "upperChar c = (if isLower c then fromCharCode (charCode c - 32) else c)"

definition toUpperCase :: "string \<Rightarrow> string" where
  "toUpperCase s = map upperChar s"

text \<open>
  A parameter declared \<open>sheetName?: string | null\<close> is a \<open>string option\<close>. The source
  tests it with \<open>if (sheetName)\<close>, which is false for \<open>undefined\<close>, \<open>null\<close> and the empty
  string.
\<close>

definition truthy :: "string option \<Rightarrow> bool" where
  "truthy s = (case s of None \<Rightarrow> False | Some n \<Rightarrow> n \<noteq> [])"

section \<open>Coordinate translator\<close>

subsection \<open>normalizeRange\<close>

definition normalizeRange :: "string \<Rightarrow> string option \<Rightarrow> string" where
  "normalizeRange rng sheetName =
     (if CHR ''!'' \<in> set rng then rng
      else if truthy sheetName then the sheetName @ ''!'' @ rng
      else ''Sheet1!'' @ rng)"

subsection \<open>Column letters\<close>

text \<open>
  \<open>colLettersToIndex\<close>: the loop over the upper-cased string is a left fold. The same
  loop is written a second time as \<open>colLetterToIndex\<close> inside \<open>batchFormat\<close>, and a third
  time inside \<open>a1ToRowCol\<close>. None of them checks its input or throws.
\<close>

definition colStep :: "int \<Rightarrow> char \<Rightarrow> int" where
  "colStep index c = index * 26 + (charCode c - 64)"

definition colLettersToIndex :: "string \<Rightarrow> int" where
  "colLettersToIndex col = foldl colStep 0 (toUpperCase col) - 1"

definition colLetterToIndex :: "string \<Rightarrow> int" where
  "colLetterToIndex col = foldl colStep 0 (toUpperCase col) - 1"








subsection \<open>Range patterns\<close>

text \<open>
  The three patterns of \<open>parseA1ToGridRange\<close> are anchored at both ends and built from
  the classes of digits and of letters, which are disjoint, so a greedy run is the only
  way to match: each matcher takes the longest run of its class and looks at what is
  left. A matcher returns the captured groups, \<open>None\<close> for a group that did not take part.

  \<^verbatim>\<open>/^(\d+)(?::(\d+))?$/\<close> with the class of digits, and
  \<^verbatim>\<open>/^([A-Z]+)(?::([A-Z]+))?$/i\<close> with the class of letters:
\<close>

definition bandMatch :: "(char \<Rightarrow> bool) \<Rightarrow> string \<Rightarrow> (string \<times> string option) option" where
  "bandMatch cls s =
     (let g1 = takeWhile cls s; rest = dropWhile cls s
      in if g1 = [] then None
         else (case rest of
                 [] \<Rightarrow> Some (g1, None)
               | c # g2 \<Rightarrow>
                   if c = CHR '':'' \<and> g2 \<noteq> [] \<and> list_all cls g2 then Some (g1, Some g2)
                   else None))"

definition rowOnlyMatch :: "string \<Rightarrow> (string \<times> string option) option" where
  "rowOnlyMatch a1Range = bandMatch isDigit a1Range"

definition colOnlyMatch :: "string \<Rightarrow> (string \<times> string option) option" where
  "colOnlyMatch a1Range = bandMatch isLetter a1Range"

text \<open>\<^verbatim>\<open>([A-Z]+)(\d+)\<close>: a cell reference at the head of a string, and what follows it.\<close>

definition cellPrefix :: "string \<Rightarrow> (string \<times> string \<times> string) option" where
  "cellPrefix s =
     (let letters = takeWhile isLetter s; r1 = dropWhile isLetter s;
          digits = takeWhile isDigit r1; r2 = dropWhile isDigit r1
      in if letters = [] \<or> digits = [] then None else Some (letters, digits, r2))"

text \<open>\<^verbatim>\<open>/^([A-Z]+)(\d+)(?::([A-Z]+)(\d+))?$/i\<close>, groups 1 to 4.\<close>

definition standardMatch :: "string \<Rightarrow> (string \<times> string \<times> string option \<times> string option) option" where
  "standardMatch s =
     (case cellPrefix s of
        None \<Rightarrow> None
      | Some (g1, g2, rest) \<Rightarrow>
          (case rest of
             [] \<Rightarrow> Some (g1, g2, None, None)
           | c # r \<Rightarrow>
               if c = CHR '':'' then
                 (case cellPrefix r of
                    Some (g3, g4, []) \<Rightarrow> Some (g1, g2, Some g3, Some g4)
                  | _ \<Rightarrow> None)
               else None))"

text \<open>What a captured group holds: a non-empty run of letters, or of digits.\<close>

definition lettersOnly :: "string \<Rightarrow> bool" where
  "lettersOnly g = (g \<noteq> [] \<and> list_all isLetter g)"

definition digitsOnly :: "string \<Rightarrow> bool" where
  "digitsOnly g = (g \<noteq> [] \<and> list_all isDigit g)"

text \<open>
  \<open>parseInt(text, 10)\<close> on a group matched by \<^verbatim>\<open>\d+\<close>: the decimal value, as an
  exact integer. The number the source computes is this integer as long as it lies below
  \<open>2 ^ 53\<close>; beyond, the source rounds to a double. The theorems about parsed numbers
  are stated for values below that limit.
\<close>

definition parseInt10 :: "string \<Rightarrow> int" where
  "parseInt10 digits = foldl (\<lambda>acc c. acc * 10 + (charCode c - 48)) 0 digits"

text \<open>
  \<open>a1ToRowCol\<close>: the pattern \<^verbatim>\<open>/^([A-Z]+)(\d+)$/i\<close>, then the column loop and the row
  number, both turned zero-based.
\<close>

definition cellMatch :: "string \<Rightarrow> (string \<times> string) option" where
  "cellMatch s =
     (case cellPrefix s of
        Some (g1, g2, []) \<Rightarrow> Some (g1, g2)
      | _ \<Rightarrow> None)"

record RowCol =
  row :: int
  col :: int

definition a1ToRowCol :: "string \<Rightarrow> error + RowCol" where
  "a1ToRowCol a1 =
     (case cellMatch a1 of
        None \<Rightarrow> Inl (InvalidFormat a1)
      | Some (g1, g2) \<Rightarrow>
          Inr \<lparr>row = parseInt10 g2 - 1, col = foldl colStep 0 (toUpperCase g1) - 1\<rparr>)"



text \<open>The limit below which the numbers of the source are exact integers.\<close>

definition belowLimit :: "int \<Rightarrow> bool" where
  "belowLimit i = (i < 2 ^ 53 - 1)"

subsection \<open>Grid ranges\<close>

text \<open>
  \<open>Schema$GridRange\<close>: an index the source leaves out of the object is \<open>None\<close>.
\<close>

record GridRange =
  sheetId :: int
  startRowIndex :: "int option"
  endRowIndex :: "int option"
  startColumnIndex :: "int option"
  endColumnIndex :: "int option"

text \<open>
  Three readings of a grid range: on each axis both bounds or neither; each end bound
  one past its start bound; and a range that starts where one range starts and ends
  where another range ends.
\<close>

definition axesPaired :: "GridRange \<Rightarrow> bool" where
  "axesPaired g =
     ((startRowIndex g = None) = (endRowIndex g = None) \<and>
      (startColumnIndex g = None) = (endColumnIndex g = None))"

definition singleSpan :: "GridRange \<Rightarrow> bool" where
  "singleSpan g =
     (endRowIndex g = map_option (\<lambda>i. i + 1) (startRowIndex g) \<and>
      endColumnIndex g = map_option (\<lambda>i. i + 1) (startColumnIndex g))"

definition spans :: "GridRange \<Rightarrow> GridRange \<Rightarrow> GridRange \<Rightarrow> bool" where
  "spans g gp gq =
     (startRowIndex g = startRowIndex gp \<and> endRowIndex g = endRowIndex gq \<and>
      startColumnIndex g = startColumnIndex gp \<and> endColumnIndex g = endColumnIndex gq)"

text \<open>A grid range whose bounds all lie below the limit of exact integers.\<close>

definition boundBelowLimit :: "int option \<Rightarrow> bool" where
  "boundBelowLimit b = (case b of None \<Rightarrow> True | Some i \<Rightarrow> belowLimit i)"

definition safeRange :: "GridRange \<Rightarrow> bool" where
  "safeRange g =
     (boundBelowLimit (startRowIndex g) \<and> boundBelowLimit (endRowIndex g) \<and>
      boundBelowLimit (startColumnIndex g) \<and> boundBelowLimit (endColumnIndex g))"

definition parseA1ToGridRange :: "string \<Rightarrow> int \<Rightarrow> error + GridRange" where
  "parseA1ToGridRange a1Range sid =
     (case rowOnlyMatch a1Range of
        Some (g1, g2) \<Rightarrow>
          (let startRow = parseInt10 g1 - 1;
               endRow = (case g2 of Some d \<Rightarrow> parseInt10 d | None \<Rightarrow> startRow + 1)
           in Inr \<lparr>sheetId = sid, startRowIndex = Some startRow, endRowIndex = Some endRow,
                   startColumnIndex = None, endColumnIndex = None\<rparr>)
      | None \<Rightarrow>
          (case (if list_ex isDigit a1Range then None else colOnlyMatch a1Range) of
             Some (g1, g2) \<Rightarrow>
               (let startCol = colLettersToIndex g1;
                    endCol = (case g2 of Some l \<Rightarrow> colLettersToIndex l + 1 | None \<Rightarrow> startCol + 1)
                in Inr \<lparr>sheetId = sid, startRowIndex = None, endRowIndex = None,
                        startColumnIndex = Some startCol, endColumnIndex = Some endCol\<rparr>)
           | None \<Rightarrow>
               (case standardMatch a1Range of
                  None \<Rightarrow> Inl (InvalidFormat a1Range)
                | Some (g1, g2, g3, g4) \<Rightarrow>
                    (let startCol = colLettersToIndex g1;
                         startRow = parseInt10 g2 - 1;
                         endCol = (case g3 of Some l \<Rightarrow> colLettersToIndex l + 1 | None \<Rightarrow> startCol + 1);
                         endRow = (case g4 of Some d \<Rightarrow> parseInt10 d | None \<Rightarrow> startRow + 1)
                     in Inr \<lparr>sheetId = sid, startRowIndex = Some startRow, endRowIndex = Some endRow,
                             startColumnIndex = Some startCol, endColumnIndex = Some endCol\<rparr>))))"

text \<open>
  \<open>parseA1Range\<close>, local to \<open>batchFormat\<close>: the standard pattern only, with inclusive
  end indices; the caller adds one to each end when it builds the grid range.
\<close>

record A1Range =
  startRow :: int
  endRow :: int
  startCol :: int
  endCol :: int

definition parseA1Range :: "string \<Rightarrow> error + A1Range" where
  "parseA1Range a1 =
     (case standardMatch a1 of
        None \<Rightarrow> Inl (InvalidFormat a1)
      | Some (g1, g2, g3, g4) \<Rightarrow>
          (let sc = colLetterToIndex g1;
               sr = parseInt10 g2 - 1;
               ec = (case g3 of Some l \<Rightarrow> colLetterToIndex l | None \<Rightarrow> sc);
               er = (case g4 of Some d \<Rightarrow> parseInt10 d - 1 | None \<Rightarrow> sr)
           in Inr \<lparr>startRow = sr, endRow = er, startCol = sc, endCol = ec\<rparr>))"

definition a1GridRange :: "int \<Rightarrow> A1Range \<Rightarrow> GridRange" where
  "a1GridRange sid r =
     \<lparr>sheetId = sid, startRowIndex = Some (startRow r), endRowIndex = Some (endRow r + 1),
      startColumnIndex = Some (startCol r), endColumnIndex = Some (endCol r + 1)\<rparr>"

text \<open>
  \<open>parseRange\<close> splits a range at \<open>!\<close>: \<open>parts[0]\<close> is what stands before the first
  \<open>!\<close>, \<open>parts[1]\<close> what stands between the first and the second. The replacement
  \<^verbatim>\<open>/^'|'$/g\<close> drops one quote at the head and one at the end of the sheet name.
\<close>

definition stripQuotes :: "string \<Rightarrow> string" where
  "stripQuotes s =
     (let s1 = (if s \<noteq> [] \<and> hd s = CHR 0x27 then tl s else s)
      in if s1 \<noteq> [] \<and> last s1 = CHR 0x27 then butlast s1 else s1)"

definition parseRange :: "string \<Rightarrow> string option \<times> string" where
  "parseRange rng =
     (if CHR ''!'' \<in> set rng
      then (Some (stripQuotes (takeWhile (\<lambda>c. c \<noteq> CHR ''!'') rng)),
            takeWhile (\<lambda>c. c \<noteq> CHR ''!'') (tl (dropWhile (\<lambda>c. c \<noteq> CHR ''!'') rng)))
      else (None, rng))"

section \<open>Colour codec\<close>

unbundle bit_operations_syntax

text \<open>
  A colour component is the quotient of a byte by 255; the source computes it as a
  double, the theory as the rational number the double rounds.
\<close>

record Color =
  red :: rat
  green :: rat
  blue :: rat

text \<open>
  \<open>parseInt(text, 16)\<close> as ECMAScript defines it: leading white space is skipped, one
  sign is read, a prefix \<open>0x\<close> or \<open>0X\<close> is dropped, and the longest run of hexadecimal
  digits that follows is the value. Only an empty run gives \<open>NaN\<close>, which is \<open>None\<close>
  here; whatever follows the run is ignored.
\<close>

definition isWhiteSpace :: "char \<Rightarrow> bool" where
  "isWhiteSpace c = (charCode c \<in> {9, 10, 11, 12, 13, 32})"

definition hexDigitValue :: "char \<Rightarrow> int option" where
  "hexDigitValue c =
     (if isDigit c then Some (charCode c - 48)
      else if 97 \<le> charCode c \<and> charCode c \<le> 102 then Some (charCode c - 87)
      else if 65 \<le> charCode c \<and> charCode c \<le> 70 then Some (charCode c - 55)
      else None)"

definition isHexDigit :: "char \<Rightarrow> bool" where
  "isHexDigit c = (hexDigitValue c \<noteq> None)"

definition parseInt16 :: "string \<Rightarrow> int option" where
  "parseInt16 inputString =
     (let S = dropWhile isWhiteSpace inputString;
          sign = (if S \<noteq> [] \<and> hd S = CHR ''-'' then - 1 else 1);
          S1 = (if S \<noteq> [] \<and> (hd S = CHR ''+'' \<or> hd S = CHR ''-'') then tl S else S);
          S2 = (if take 2 S1 = ''0x'' \<or> take 2 S1 = ''0X'' then drop 2 S1 else S1);
          Z = takeWhile isHexDigit S2
      in if Z = [] then None
         else Some (sign * foldl (\<lambda>acc c. acc * 16 + the (hexDigitValue c)) 0 Z))"

definition hexToRgb :: "string \<Rightarrow> Color option" where
  "hexToRgb hex =
     (if hex = [] then None
      else
        (let hexClean = (if hd hex = CHR ''#'' then tl hex else hex);
             hexClean = (if length hexClean = 3
                         then [hexClean ! 0, hexClean ! 0, hexClean ! 1, hexClean ! 1,
                               hexClean ! 2, hexClean ! 2]
                         else hexClean)
         in if length hexClean \<noteq> 6 then None
            else (case parseInt16 hexClean of
                    None \<Rightarrow> None
                  | Some bigint \<Rightarrow>
                      Some \<lparr>red = of_int (drop_bit 16 bigint AND 255) / 255,
                            green = of_int (drop_bit 8 bigint AND 255) / 255,
                            blue = of_int (bigint AND 255) / 255\<rparr>)))"

section \<open>The remote spreadsheet\<close>

text \<open>
  What \<open>spreadsheets.get\<close> returns about one sheet: \<open>properties?.sheetId\<close>,
  \<open>properties?.title\<close> and \<open>conditionalFormats\<close>, each of which may be missing. The
  source reads the sheet list only through \<open>sheets?.find\<close>, \<open>sheets?.[0]\<close> and
  \<open>sheets || []\<close>, so a missing list behaves as the empty one and is written \<open>[]\<close>.
\<close>

record 'rule Sheet =
  propSheetId :: "int option"
  propTitle :: "string option"
  conditionalFormats :: "'rule list option"

text \<open>A failed remote call: \<open>error.code\<close> and \<open>error.message\<close>.\<close>

datatype remoteError = RemoteError int string

text \<open>The \<open>catch\<close> blocks: 404, 403, or the operation's own message.\<close>

definition userError :: "string \<Rightarrow> remoteError \<Rightarrow> error" where
  "userError what e =
     (case e of RemoteError code message \<Rightarrow>
        if code = 404 then SpreadsheetNotFound
        else if code = 403 then PermissionDenied
        else Failed (what @ '': '' @ (if message = [] then ''Unknown error'' else message)))"

subsection \<open>Request payloads\<close>

record ColorA = Color +
  alpha :: rat

definition withAlpha :: "Color \<Rightarrow> ColorA" where
  "withAlpha c = \<lparr>red = red c, green = green c, blue = blue c, alpha = 1\<rparr>"

datatype hAlign = LEFT | CENTER | RIGHT
datatype vAlign = TOP | MIDDLE | BOTTOM
datatype wrap = OVERFLOW_CELL | CLIP | WRAP
datatype dimension = ROWS | COLUMNS

record TextFormat =
  foregroundColor :: "ColorA option"
  fontSize :: "rat option"
  bold :: "bool option"
  italic :: "bool option"
  fontFamily :: "string option"

record NumberFormat =
  nfType :: string
  nfPattern :: string

record CellFormat =
  backgroundColor :: "ColorA option"
  textFormat :: "TextFormat option"
  horizontalAlignment :: "hAlign option"
  verticalAlignment :: "vAlign option"
  numberFormat :: "NumberFormat option"
  wrapStrategy :: "wrap option"

record GridProperties =
  frozenRowCount :: "int option"
  frozenColumnCount :: "int option"

record DimensionRange =
  dimSheetId :: int
  dimension :: dimension
  startIndex :: int
  endIndex :: int

datatype dimensionProperties = PixelSize rat | HiddenByUser bool

text \<open>The requests of a \<open>batchUpdate\<close>; the last argument of a request is its field mask.\<close>

datatype sheetsRequest =
    RepeatCell GridRange CellFormat string
  | UpdateSheetProperties int GridProperties string
  | UpdateDimensionProperties DimensionRange dimensionProperties string
  | MergeCells GridRange string
  | DeleteConditionalFormatRule int int

text \<open>
  The remote side of one operation: what the metadata read answers, and what a batch
  submission answers. An operation of the engine returns its outcome together with the
  batches it has submitted, in order.
\<close>

record ('rule, 'resp) Remote =
  getResult :: "remoteError + 'rule Sheet list"
  batchUpdateResult :: "sheetsRequest list \<Rightarrow> remoteError + 'resp"

definition emptyTextFormat :: TextFormat where
  "emptyTextFormat =
     \<lparr>foregroundColor = None, fontSize = None, bold = None, italic = None, fontFamily = None\<rparr>"

definition emptyCellFormat :: CellFormat where
  "emptyCellFormat =
     \<lparr>backgroundColor = None, textFormat = None, horizontalAlignment = None,
      verticalAlignment = None, numberFormat = None, wrapStrategy = None\<rparr>"

definition emptyGridProperties :: GridProperties where
  "emptyGridProperties = \<lparr>frozenRowCount = None, frozenColumnCount = None\<rparr>"

text \<open>\<open>Array.prototype.join\<close> with a comma.\<close>

fun joinComma :: "string list \<Rightarrow> string" where
  "joinComma [] = []"
| "joinComma [p] = p"
| "joinComma (p # q # ps) = p @ '','' @ joinComma (q # ps)"

section \<open>Structural resolver\<close>

definition getSpreadsheetMetadata :: "(remoteError + 'rule Sheet list) \<Rightarrow> error + 'rule Sheet list" where
  "getSpreadsheetMetadata response =
     (case response of
        Inl e \<Rightarrow> Inl (userError ''Failed to get spreadsheet metadata'' e)
      | Inr sheets \<Rightarrow> Inr sheets)"

definition resolveSheetId :: "(remoteError + 'rule Sheet list) \<Rightarrow> string option \<Rightarrow> error + int" where
  "resolveSheetId response sheetName =
     (case getSpreadsheetMetadata response of
        Inl e \<Rightarrow> Inl e
      | Inr sheets \<Rightarrow>
          if truthy sheetName then
            (case find (\<lambda>s. propTitle s = sheetName) sheets of
               None \<Rightarrow> Inl (NotFound (the sheetName))
             | Some sheet \<Rightarrow>
                 (case propSheetId sheet of
                    None \<Rightarrow> Inl (NotFound (the sheetName))
                  | Some i \<Rightarrow> Inr i))
          else
            (case sheets of
               [] \<Rightarrow> Inl EmptyDocument
             | firstSheet # _ \<Rightarrow>
                 (case propSheetId firstSheet of
                    None \<Rightarrow> Inl EmptyDocument
                  | Some i \<Rightarrow> Inr i)))"

section \<open>Formatting requests\<close>

subsection \<open>formatCells\<close>

text \<open>The \<open>format\<close> argument of \<open>formatCells\<close>; colours arrive as component triples.\<close>

record TextFormatArg =
  argForegroundColor :: "Color option"
  argFontSize :: "rat option"
  argBold :: "bool option"
  argItalic :: "bool option"

record FormatArg =
  argBackgroundColor :: "Color option"
  argTextFormat :: "TextFormatArg option"
  argHorizontalAlignment :: "hAlign option"
  argVerticalAlignment :: "vAlign option"

definition formatCellsTextFormat :: "TextFormatArg \<Rightarrow> TextFormat" where
  "formatCellsTextFormat t =
     \<lparr>foregroundColor = map_option withAlpha (argForegroundColor t),
      fontSize = argFontSize t, bold = argBold t, italic = argItalic t, fontFamily = None\<rparr>"

definition formatCellsFormat :: "FormatArg \<Rightarrow> CellFormat" where
  "formatCellsFormat format =
     \<lparr>backgroundColor = map_option withAlpha (argBackgroundColor format),
      textFormat = map_option formatCellsTextFormat (argTextFormat format),
      horizontalAlignment = argHorizontalAlignment format,
      verticalAlignment = argVerticalAlignment format,
      numberFormat = None, wrapStrategy = None\<rparr>"

definition formatCellsFields :: string where
  "formatCellsFields =
     ''userEnteredFormat(backgroundColor,textFormat,horizontalAlignment,verticalAlignment)''"

definition formatCells ::
  "('rule, 'resp) Remote \<Rightarrow> string \<Rightarrow> FormatArg \<Rightarrow> (error + 'resp) \<times> sheetsRequest list list" where
  "formatCells remote rng format =
     (case parseRange rng of (sheetName, a1Range) \<Rightarrow>
        (case resolveSheetId (getResult remote) sheetName of
           Inl e \<Rightarrow> (Inl e, [])
         | Inr sid \<Rightarrow>
             (case parseA1ToGridRange a1Range sid of
                Inl e \<Rightarrow> (Inl e, [])
              | Inr gridRange \<Rightarrow>
                  (let requests = [RepeatCell gridRange (formatCellsFormat format) formatCellsFields]
                   in (case batchUpdateResult remote requests of
                         Inl e \<Rightarrow> (Inl (userError ''Failed to format cells'' e), [requests])
                       | Inr d \<Rightarrow> (Inr d, [requests]))))))"

subsection \<open>freezeRowsAndColumns\<close>

text \<open>The payload and the mask parts are built side by side, one \<open>if\<close> per attribute.\<close>

definition freezeBuild :: "int option \<Rightarrow> int option \<Rightarrow> GridProperties \<times> string list" where
  "freezeBuild frozenRows frozenColumns =
     (let gridProperties = emptyGridProperties; fieldParts = [];
          (gridProperties, fieldParts) =
            (case frozenRows of
               Some n \<Rightarrow> (gridProperties\<lparr>frozenRowCount := Some n\<rparr>,
                          fieldParts @ [''gridProperties.frozenRowCount''])
             | None \<Rightarrow> (gridProperties, fieldParts));
          (gridProperties, fieldParts) =
            (case frozenColumns of
               Some n \<Rightarrow> (gridProperties\<lparr>frozenColumnCount := Some n\<rparr>,
                          fieldParts @ [''gridProperties.frozenColumnCount''])
             | None \<Rightarrow> (gridProperties, fieldParts))
      in (gridProperties, fieldParts))"

definition freezeRequest :: "int \<Rightarrow> int option \<Rightarrow> int option \<Rightarrow> sheetsRequest" where
  "freezeRequest sid frozenRows frozenColumns =
     (case freezeBuild frozenRows frozenColumns of
        (gridProperties, fieldParts) \<Rightarrow>
          UpdateSheetProperties sid gridProperties (joinComma fieldParts))"


subsection \<open>Conditional-format rules\<close>

record 'rule SheetRules =
  rulesSheetId :: int
  rulesSheetName :: string
  rules :: "'rule list"

text \<open>The loop of \<open>getConditionalFormatRules\<close> over the sheets of the response.\<close>

fun collectRules :: "int option \<Rightarrow> 'rule Sheet list \<Rightarrow> 'rule SheetRules list" where
  "collectRules sid [] = []"
| "collectRules sid (sheet # others) =
     (if sid \<noteq> None \<and> propSheetId sheet \<noteq> sid then collectRules sid others
      else (case propSheetId sheet of
              None \<Rightarrow> collectRules sid others
            | Some currentSheetId \<Rightarrow>
                \<lparr>rulesSheetId = currentSheetId,
                 rulesSheetName = (if truthy (propTitle sheet) then the (propTitle sheet) else ''Unknown''),
                 rules = (case conditionalFormats sheet of None \<Rightarrow> [] | Some rs \<Rightarrow> rs)\<rparr>
                # collectRules sid others))"

definition getConditionalFormatRules ::
  "(remoteError + 'rule Sheet list) \<Rightarrow> int option \<Rightarrow> error + 'rule SheetRules list" where
  "getConditionalFormatRules response sid =
     (case response of
        Inl e \<Rightarrow> Inl (userError ''Failed to get conditional format rules'' e)
      | Inr sheets \<Rightarrow> Inr (collectRules sid sheets))"

text \<open>
  The loop \<open>for (let i = rules.length - 1; i >= 0; i--)\<close>; the argument counts the
  rounds that remain, so a round with \<open>Suc i\<close> remaining pushes the request for index \<open>i\<close>.
\<close>

fun deleteRuleRequests :: "int \<Rightarrow> nat \<Rightarrow> sheetsRequest list" where
  "deleteRuleRequests sid 0 = []"
| "deleteRuleRequests sid (Suc i) = DeleteConditionalFormatRule sid (int i) # deleteRuleRequests sid i"

text \<open>
  \<open>clearConditionalFormatRules\<close> answers \<open>{ spreadsheetId }\<close> without a submission when
  there is nothing to delete: that outcome is \<open>Inr None\<close>.
\<close>

definition clearConditionalFormatRules ::
  "('rule, 'resp) Remote \<Rightarrow> int \<Rightarrow> (error + 'resp option) \<times> sheetsRequest list list" where
  "clearConditionalFormatRules remote sid =
     (case getConditionalFormatRules (getResult remote) (Some sid) of
        Inl e \<Rightarrow> (Inl e, [])
      | Inr existingRules \<Rightarrow>
          (case find (\<lambda>s. rulesSheetId s = sid) existingRules of
             None \<Rightarrow> (Inr None, [])
           | Some sheetRules \<Rightarrow>
               if length (rules sheetRules) = 0 then (Inr None, [])
               else
                 (let requests = deleteRuleRequests sid (length (rules sheetRules))
                  in (case batchUpdateResult remote requests of
                        Inl e \<Rightarrow> (Inl (userError ''Failed to clear conditional format rules'' e), [requests])
                      | Inr d \<Rightarrow> (Inr (Some d), [requests])))))"

subsection \<open>batchFormat\<close>

text \<open>One entry of \<open>operations.cellFormats\<close>; colours arrive as hex strings.\<close>

record CellFormatOp =
  opRange :: string
  opFontSize :: "rat option"
  opBold :: "bool option"
  opItalic :: "bool option"
  opFontFamily :: "string option"
  opFontColor :: "string option"
  opBackgroundColor :: "string option"
  opHorizontalAlignment :: "hAlign option"
  opVerticalAlignment :: "vAlign option"
  opNumberFormat :: "string option"
  opWrapStrategy :: "wrap option"

text \<open>
  The body of the loop over \<open>cellFormats\<close> fills \<open>userEnteredFormat\<close> and pushes to
  \<open>fields\<close> in ten \<open>if\<close> blocks. Each block is one function below, on the pair of the
  payload and the mask parts (\<open>fields\<close> in the source); the five blocks of the text format work on \<open>textFormat\<close>,
  \<open>hasTextFormat\<close> and \<open>fields\<close>.
\<close>

definition setBackgroundColor :: "CellFormatOp \<Rightarrow> CellFormat \<times> string list \<Rightarrow> CellFormat \<times> string list" where
  "setBackgroundColor fmt st =
     (case st of (userEnteredFormat, parts) \<Rightarrow>
        if truthy (opBackgroundColor fmt) then
          (case hexToRgb (the (opBackgroundColor fmt)) of
             Some bg \<Rightarrow> (userEnteredFormat\<lparr>backgroundColor := Some (withAlpha bg)\<rparr>,
                         parts @ [''userEnteredFormat.backgroundColor''])
           | None \<Rightarrow> st)
        else st)"

definition setFontColor :: "CellFormatOp \<Rightarrow> TextFormat \<times> bool \<times> string list \<Rightarrow> TextFormat \<times> bool \<times> string list" where
  "setFontColor fmt st =
     (case st of (textFmt, hasTextFormat, parts) \<Rightarrow>
        if truthy (opFontColor fmt) then
          (case hexToRgb (the (opFontColor fmt)) of
             Some fc \<Rightarrow> (textFmt\<lparr>foregroundColor := Some (withAlpha fc)\<rparr>, True,
                         parts @ [''userEnteredFormat.textFormat.foregroundColor''])
           | None \<Rightarrow> st)
        else st)"

definition setFontSize :: "CellFormatOp \<Rightarrow> TextFormat \<times> bool \<times> string list \<Rightarrow> TextFormat \<times> bool \<times> string list" where
  "setFontSize fmt st =
     (case st of (textFmt, hasTextFormat, parts) \<Rightarrow>
        (case opFontSize fmt of
           Some v \<Rightarrow> (textFmt\<lparr>fontSize := Some v\<rparr>, True,
                      parts @ [''userEnteredFormat.textFormat.fontSize''])
         | None \<Rightarrow> st))"

definition setBold :: "CellFormatOp \<Rightarrow> TextFormat \<times> bool \<times> string list \<Rightarrow> TextFormat \<times> bool \<times> string list" where
  "setBold fmt st =
     (case st of (textFmt, hasTextFormat, parts) \<Rightarrow>
        (case opBold fmt of
           Some v \<Rightarrow> (textFmt\<lparr>bold := Some v\<rparr>, True,
                      parts @ [''userEnteredFormat.textFormat.bold''])
         | None \<Rightarrow> st))"

definition setItalic :: "CellFormatOp \<Rightarrow> TextFormat \<times> bool \<times> string list \<Rightarrow> TextFormat \<times> bool \<times> string list" where
  "setItalic fmt st =
     (case st of (textFmt, hasTextFormat, parts) \<Rightarrow>
        (case opItalic fmt of
           Some v \<Rightarrow> (textFmt\<lparr>italic := Some v\<rparr>, True,
                      parts @ [''userEnteredFormat.textFormat.italic''])
         | None \<Rightarrow> st))"

definition setFontFamily :: "CellFormatOp \<Rightarrow> TextFormat \<times> bool \<times> string list \<Rightarrow> TextFormat \<times> bool \<times> string list" where
  "setFontFamily fmt st =
     (case st of (textFmt, hasTextFormat, parts) \<Rightarrow>
        if truthy (opFontFamily fmt)
        then (textFmt\<lparr>fontFamily := opFontFamily fmt\<rparr>, True,
              parts @ [''userEnteredFormat.textFormat.fontFamily''])
        else st)"

definition attachTextFormat :: "CellFormat \<Rightarrow> TextFormat \<times> bool \<times> string list \<Rightarrow> CellFormat \<times> string list" where
  "attachTextFormat userEnteredFormat st =
     (case st of (textFmt, hasTextFormat, parts) \<Rightarrow>
        if hasTextFormat then (userEnteredFormat\<lparr>textFormat := Some textFmt\<rparr>, parts)
        else (userEnteredFormat, parts))"

definition setHorizontalAlignment :: "CellFormatOp \<Rightarrow> CellFormat \<times> string list \<Rightarrow> CellFormat \<times> string list" where
  "setHorizontalAlignment fmt st =
     (case st of (userEnteredFormat, parts) \<Rightarrow>
        (case opHorizontalAlignment fmt of
           Some v \<Rightarrow> (userEnteredFormat\<lparr>horizontalAlignment := Some v\<rparr>,
                      parts @ [''userEnteredFormat.horizontalAlignment''])
         | None \<Rightarrow> st))"

definition setVerticalAlignment :: "CellFormatOp \<Rightarrow> CellFormat \<times> string list \<Rightarrow> CellFormat \<times> string list" where
  "setVerticalAlignment fmt st =
     (case st of (userEnteredFormat, parts) \<Rightarrow>
        (case opVerticalAlignment fmt of
           Some v \<Rightarrow> (userEnteredFormat\<lparr>verticalAlignment := Some v\<rparr>,
                      parts @ [''userEnteredFormat.verticalAlignment''])
         | None \<Rightarrow> st))"

definition setNumberFormat :: "CellFormatOp \<Rightarrow> CellFormat \<times> string list \<Rightarrow> CellFormat \<times> string list" where
  "setNumberFormat fmt st =
     (case st of (userEnteredFormat, parts) \<Rightarrow>
        if truthy (opNumberFormat fmt)
        then (userEnteredFormat\<lparr>numberFormat :=
                Some \<lparr>nfType = ''NUMBER'', nfPattern = the (opNumberFormat fmt)\<rparr>\<rparr>,
              parts @ [''userEnteredFormat.numberFormat''])
        else st)"

definition setWrapStrategy :: "CellFormatOp \<Rightarrow> CellFormat \<times> string list \<Rightarrow> CellFormat \<times> string list" where
  "setWrapStrategy fmt st =
     (case st of (userEnteredFormat, parts) \<Rightarrow>
        (case opWrapStrategy fmt of
           Some v \<Rightarrow> (userEnteredFormat\<lparr>wrapStrategy := Some v\<rparr>,
                      parts @ [''userEnteredFormat.wrapStrategy''])
         | None \<Rightarrow> st))"

definition textFormatBuild :: "CellFormatOp \<Rightarrow> string list \<Rightarrow> TextFormat \<times> bool \<times> string list" where
  "textFormatBuild fmt parts =
     setFontFamily fmt (setItalic fmt (setBold fmt (setFontSize fmt
       (setFontColor fmt (emptyTextFormat, False, parts)))))"

definition cellFormatBuild :: "CellFormatOp \<Rightarrow> CellFormat \<times> string list" where
  "cellFormatBuild fmt =
     (case setBackgroundColor fmt (emptyCellFormat, []) of
        (userEnteredFormat, parts) \<Rightarrow>
          setWrapStrategy fmt (setNumberFormat fmt (setVerticalAlignment fmt
            (setHorizontalAlignment fmt
              (attachTextFormat userEnteredFormat (textFormatBuild fmt parts))))))"

text \<open>
  One round of the loop: the range is parsed first (and may throw), the request is
  pushed only when some mask part was pushed.
\<close>

definition cellFormatRequest :: "int \<Rightarrow> CellFormatOp \<Rightarrow> error + sheetsRequest list" where
  "cellFormatRequest sid fmt =
     (case parseA1Range (opRange fmt) of
        Inl e \<Rightarrow> Inl e
      | Inr r \<Rightarrow>
          (case cellFormatBuild fmt of
             (userEnteredFormat, parts) \<Rightarrow>
               if length parts > 0
               then Inr [RepeatCell (a1GridRange sid r) userEnteredFormat (joinComma parts)]
               else Inr []))"

fun cellFormatRequests :: "int \<Rightarrow> CellFormatOp list \<Rightarrow> error + sheetsRequest list" where
  "cellFormatRequests sid [] = Inr []"
| "cellFormatRequests sid (fmt # fmts) =
     (case cellFormatRequest sid fmt of
        Inl e \<Rightarrow> Inl e
      | Inr rs \<Rightarrow>
          (case cellFormatRequests sid fmts of
             Inl e \<Rightarrow> Inl e
           | Inr rs' \<Rightarrow> Inr (rs @ rs')))"

definition columnWidthRequest :: "int \<Rightarrow> string \<times> rat \<Rightarrow> sheetsRequest" where
  "columnWidthRequest sid cw =
     (let colIndex = colLetterToIndex (fst cw)
      in UpdateDimensionProperties
           \<lparr>dimSheetId = sid, dimension = COLUMNS, startIndex = colIndex, endIndex = colIndex + 1\<rparr>
           (PixelSize (snd cw)) ''pixelSize'')"

definition rowHeightRequest :: "int \<Rightarrow> int \<times> rat \<Rightarrow> sheetsRequest" where
  "rowHeightRequest sid rh =
     UpdateDimensionProperties
       \<lparr>dimSheetId = sid, dimension = ROWS, startIndex = fst rh - 1, endIndex = fst rh\<rparr>
       (PixelSize (snd rh)) ''pixelSize''"

definition hideColumnsRequest :: "int \<Rightarrow> string \<times> string \<Rightarrow> sheetsRequest" where
  "hideColumnsRequest sid hc =
     (let sc = colLetterToIndex (fst hc); ec = colLetterToIndex (snd hc)
      in UpdateDimensionProperties
           \<lparr>dimSheetId = sid, dimension = COLUMNS, startIndex = sc, endIndex = ec + 1\<rparr>
           (HiddenByUser True) ''hiddenByUser'')"

fun mergeRequests :: "int \<Rightarrow> string list \<Rightarrow> error + sheetsRequest list" where
  "mergeRequests sid [] = Inr []"
| "mergeRequests sid (mergeRange # others) =
     (case parseA1Range mergeRange of
        Inl e \<Rightarrow> Inl e
      | Inr r \<Rightarrow>
          (case mergeRequests sid others of
             Inl e \<Rightarrow> Inl e
           | Inr rs \<Rightarrow> Inr (MergeCells (a1GridRange sid r) ''MERGE_ALL'' # rs)))"

text \<open>
  \<open>operations\<close>: a list that is left out is looped over like an empty one, so the four
  optional lists are plain lists here.
\<close>

record Operations =
  cellFormats :: "CellFormatOp list"
  columnWidths :: "(string \<times> rat) list"
  rowHeights :: "(int \<times> rat) list"
  hideColumns :: "(string \<times> string) option"
  merges :: "string list"
  freezeRows :: "int option"
  freezeColumns :: "int option"

definition batchFormatRequests :: "int \<Rightarrow> Operations \<Rightarrow> error + sheetsRequest list" where
  "batchFormatRequests sid operations =
     (case cellFormatRequests sid (cellFormats operations) of
        Inl e \<Rightarrow> Inl e
      | Inr formatReqs \<Rightarrow>
          (case mergeRequests sid (merges operations) of
             Inl e \<Rightarrow> Inl e
           | Inr mergeReqs \<Rightarrow>
               Inr (formatReqs
                    @ map (columnWidthRequest sid) (columnWidths operations)
                    @ map (rowHeightRequest sid) (rowHeights operations)
                    @ (case hideColumns operations of None \<Rightarrow> [] | Some hc \<Rightarrow> [hideColumnsRequest sid hc])
                    @ mergeReqs
                    @ (if freezeRows operations \<noteq> None \<or> freezeColumns operations \<noteq> None
                       then [freezeRequest sid (freezeRows operations) (freezeColumns operations)]
                       else []))))"

definition batchFormat ::
  "('rule, 'resp) Remote \<Rightarrow> string \<Rightarrow> Operations \<Rightarrow> (error + 'resp option) \<times> sheetsRequest list list" where
  "batchFormat remote sheetName operations =
     (case getSpreadsheetMetadata (getResult remote) of
        Inl e \<Rightarrow> (Inl e, [])
      | Inr sheets \<Rightarrow>
          (case Option.bind (find (\<lambda>s. propTitle s = Some sheetName) sheets) propSheetId of
             None \<Rightarrow> (Inl (NotFound sheetName), [])
           | Some sid \<Rightarrow>
               (case batchFormatRequests sid operations of
                  Inl e \<Rightarrow> (Inl e, [])
                | Inr requests \<Rightarrow>
                    if length requests = 0 then (Inr None, [])
                    else (case batchUpdateResult remote requests of
                            Inl e \<Rightarrow> (Inl (userError ''Failed to batch format'' e), [requests])
                          | Inr d \<Rightarrow> (Inr (Some d), [requests])))))"

text \<open>
  The attribute paths a payload populates, written as the mask would name them: an
  attribute of the text format counts under its own path.
\<close>

definition textFormatPaths :: "TextFormat \<Rightarrow> string list" where
  "textFormatPaths t =
     (if foregroundColor t \<noteq> None then [''userEnteredFormat.textFormat.foregroundColor''] else [])
     @ (if fontSize t \<noteq> None then [''userEnteredFormat.textFormat.fontSize''] else [])
     @ (if bold t \<noteq> None then [''userEnteredFormat.textFormat.bold''] else [])
     @ (if italic t \<noteq> None then [''userEnteredFormat.textFormat.italic''] else [])
     @ (if fontFamily t \<noteq> None then [''userEnteredFormat.textFormat.fontFamily''] else [])"

definition populatedPaths :: "CellFormat \<Rightarrow> string list" where
  "populatedPaths f =
     (if backgroundColor f \<noteq> None then [''userEnteredFormat.backgroundColor''] else [])
     @ (case textFormat f of None \<Rightarrow> [] | Some t \<Rightarrow> textFormatPaths t)
     @ (if horizontalAlignment f \<noteq> None then [''userEnteredFormat.horizontalAlignment''] else [])
     @ (if verticalAlignment f \<noteq> None then [''userEnteredFormat.verticalAlignment''] else [])
     @ (if numberFormat f \<noteq> None then [''userEnteredFormat.numberFormat''] else [])
     @ (if wrapStrategy f \<noteq> None then [''userEnteredFormat.wrapStrategy''] else [])"

definition gridPropertiesPaths :: "GridProperties \<Rightarrow> string list" where
  "gridPropertiesPaths g =
     (if frozenRowCount g \<noteq> None then [''gridProperties.frozenRowCount''] else [])
     @ (if frozenColumnCount g \<noteq> None then [''gridProperties.frozenColumnCount''] else [])"

text \<open>
  The invariants of the two accumulations of \<open>batchFormat\<close>: the mask parts pushed so
  far name the attributes populated so far.
\<close>

definition textInv :: "string list \<Rightarrow> TextFormat \<times> bool \<times> string list \<Rightarrow> bool" where
  "textInv parts0 st =
     (case st of (t, has, parts) \<Rightarrow>
        set parts = set parts0 \<union> set (textFormatPaths t) \<and> (\<not> has \<longrightarrow> textFormatPaths t = []))"

definition maskInv :: "CellFormat \<times> string list \<Rightarrow> bool" where
  "maskInv st = (case st of (f, parts) \<Rightarrow> set parts = set (populatedPaths f))"

section \<open>Editing a table cell of a document\<close>

text \<open>
  The range \<open>getTableCellRange\<close> resolves for the cell, and the requests the tool
  builds from it. The style arguments are kept abstract: \<open>'ts\<close> for \<open>TextStyleArgs\<close>,
  \<open>'ps\<close> for \<open>ParagraphStyleArgs\<close>.
\<close>

record CellRange =
  cellStartIndex :: int
  cellEndIndex :: int

datatype ('ts, 'ps) docsRequest =
    DeleteContentRange int int
  | InsertText int string
  | UpdateTextStyle int int 'ts "string option"
  | UpdateParagraphStyle int int 'ps "string option"

record ('ts, 'ps) EditArgs =
  textContent :: "string option"
  textStyle :: "'ts option"
  paragraphStyle :: "'ps option"
  tabId :: "string option"

text \<open>
  Modelled from the spec: \<open>buildUpdateTextStyleRequest\<close> and
  \<open>buildUpdateParagraphStyleRequest\<close> belong to \<open>googleDocsApiHelpers.ts\<close>, which is
  not among the sources. Steps 4 and 5 of the specification's request builder say what
  they give: a style request for the range they are handed. The tool tests their result
  for \<open>null\<close>; when a helper answers \<open>null\<close> is not in the sources, so it is left to the
  parameters \<open>hasTextFields\<close> and \<open>hasParaFields\<close>.
\<close>

definition buildUpdateTextStyleRequest ::
  "('ts \<Rightarrow> bool) \<Rightarrow> int \<Rightarrow> int \<Rightarrow> 'ts \<Rightarrow> string option \<Rightarrow> ('ts, 'ps) docsRequest option" where
  "buildUpdateTextStyleRequest hasTextFields startIdx endIdx style tab =
     (if hasTextFields style then Some (UpdateTextStyle startIdx endIdx style tab) else None)"

definition buildUpdateParagraphStyleRequest ::
  "('ps \<Rightarrow> bool) \<Rightarrow> int \<Rightarrow> int \<Rightarrow> 'ps \<Rightarrow> string option \<Rightarrow> ('ts, 'ps) docsRequest option" where
  "buildUpdateParagraphStyleRequest hasParaFields startIdx endIdx style tab =
     (if hasParaFields style then Some (UpdateParagraphStyle startIdx endIdx style tab) else None)"

text \<open>
  The first block of \<open>execute\<close>: the delete and insert requests, and \<open>newTextEnd\<close>.
  The length of a JavaScript string counts its code units.
\<close>

definition contentRequests :: "CellRange \<Rightarrow> string option \<Rightarrow> ('ts, 'ps) docsRequest list" where
  "contentRequests cellRange content =
     (case content of
        Some text \<Rightarrow>
          (if cellEndIndex cellRange > cellStartIndex cellRange
           then [DeleteContentRange (cellStartIndex cellRange) (cellEndIndex cellRange)] else [])
          @ (if length text > 0 then [InsertText (cellStartIndex cellRange) text] else [])
      | None \<Rightarrow> [])"

definition newTextEnd :: "CellRange \<Rightarrow> string option \<Rightarrow> int" where
  "newTextEnd cellRange content =
     (case content of
        Some text \<Rightarrow> cellStartIndex cellRange + int (length text)
      | None \<Rightarrow> cellEndIndex cellRange)"

definition textStyleRequests ::
  "('ts \<Rightarrow> bool) \<Rightarrow> CellRange \<Rightarrow> ('ts, 'ps) EditArgs \<Rightarrow> ('ts, 'ps) docsRequest list" where
  "textStyleRequests hasTextFields cellRange args =
     (let newTextStart = cellStartIndex cellRange;
          newEnd = newTextEnd cellRange (textContent args)
      in (case textStyle args of
            Some style \<Rightarrow>
              if newEnd > newTextStart then
                (case buildUpdateTextStyleRequest hasTextFields newTextStart newEnd style (tabId args) of
                   Some request \<Rightarrow> [request]
                 | None \<Rightarrow> [])
              else []
          | None \<Rightarrow> []))"

definition paragraphStyleRequests ::
  "('ps \<Rightarrow> bool) \<Rightarrow> CellRange \<Rightarrow> ('ts, 'ps) EditArgs \<Rightarrow> ('ts, 'ps) docsRequest list" where
  "paragraphStyleRequests hasParaFields cellRange args =
     (let newTextStart = cellStartIndex cellRange;
          newEnd = newTextEnd cellRange (textContent args)
      in (case paragraphStyle args of
            Some style \<Rightarrow>
              if newEnd \<ge> newTextStart then
                (let paraEnd = (if textContent args \<noteq> None then newEnd + 1
                                else cellEndIndex cellRange + 1)
                 in (case buildUpdateParagraphStyleRequest hasParaFields newTextStart paraEnd style (tabId args) of
                       Some request \<Rightarrow> [request]
                     | None \<Rightarrow> []))
              else []
          | None \<Rightarrow> []))"

definition editTableCellRequests ::
  "('ts \<Rightarrow> bool) \<Rightarrow> ('ps \<Rightarrow> bool) \<Rightarrow> CellRange \<Rightarrow> ('ts, 'ps) EditArgs \<Rightarrow> ('ts, 'ps) docsRequest list" where
  "editTableCellRequests hasTextFields hasParaFields cellRange args =
     contentRequests cellRange (textContent args)
     @ textStyleRequests hasTextFields cellRange args
     @ paragraphStyleRequests hasParaFields cellRange args"

text \<open>The kinds of request, to speak about what a request list holds.\<close>

fun isDelete :: "('ts, 'ps) docsRequest \<Rightarrow> bool" where
  "isDelete (DeleteContentRange s e) = True"
| "isDelete r = False"

fun isInsert :: "('ts, 'ps) docsRequest \<Rightarrow> bool" where
  "isInsert (InsertText i t) = True"
| "isInsert r = False"

fun isParagraphStyle :: "('ts, 'ps) docsRequest \<Rightarrow> bool" where
  "isParagraphStyle (UpdateParagraphStyle s e p t) = True"
| "isParagraphStyle r = False"

fun isTextStyle :: "('ts, 'ps) docsRequest \<Rightarrow> bool" where
  "isTextStyle (UpdateTextStyle s e p t) = True"
| "isTextStyle r = False"

text \<open>A style helper that builds a request from every style argument, for examples.\<close>

definition everyStyle :: "'a \<Rightarrow> bool" where
  "everyStyle style = True"

section \<open>A spreadsheet for the worked examples\<close>

definition exampleSheets :: "string Sheet list" where
  "exampleSheets =
     [\<lparr>propSheetId = Some 0, propTitle = Some ''Summary'', conditionalFormats = None\<rparr>,
      \<lparr>propSheetId = Some 7, propTitle = Some ''Data'',
       conditionalFormats = Some [''r0'', ''r1'', ''r2'']\<rparr>]"

definition exampleRemote :: "(string, unit) Remote" where
  "exampleRemote = \<lparr>getResult = Inr exampleSheets, batchUpdateResult = (\<lambda>requests. Inr ())\<rparr>"

definition boldOnly :: FormatArg where
  "boldOnly =
     \<lparr>argBackgroundColor = None,
      argTextFormat = Some \<lparr>argForegroundColor = None, argFontSize = None,
                            argBold = Some True, argItalic = None\<rparr>,
      argHorizontalAlignment = None, argVerticalAlignment = None\<rparr>"

section \<open>Column letters: the two loops\<close>

lemma charCode_fromCharCode: "0 \<le> n \<Longrightarrow> n < 256 \<Longrightarrow> charCode (fromCharCode n) = n"
  by (simp add: charCode_def fromCharCode_def)




lemma foldl_colStep_snoc: "foldl colStep a (xs @ [c]) = foldl colStep a xs * 26 + (charCode c - 64)"
  by (simp add: colStep_def)





lemma upperChar_letter: "isLetter c \<Longrightarrow> isUpper (upperChar c)"
  by (auto simp: isLetter_def upperChar_def isUpper_def isLower_def charCode_fromCharCode)

lemma toUpperCase_letters: "list_all isLetter s \<Longrightarrow> list_all isUpper (toUpperCase s)"
  by (induction s) (simp_all add: toUpperCase_def upperChar_letter)



lemma isUpperD: "isUpper c \<Longrightarrow> 65 \<le> charCode c \<and> charCode c \<le> 90"
  by (simp add: isUpper_def)

lemma decode_nonneg: "list_all isUpper u \<Longrightarrow> 0 \<le> foldl colStep 0 u"
proof (induction u rule: rev_induct)
  case Nil
  show ?case by simp
next
  case (snoc c u)
  from snoc.prems have "list_all isUpper u" and "isUpper c" by simp_all
  with snoc.IH have "0 \<le> foldl colStep 0 u" and "65 \<le> charCode c"
    by (simp_all add: isUpperD)
  then show ?case unfolding foldl_colStep_snoc by simp
qed

lemma decode_pos:
  assumes "list_all isUpper u" and "u \<noteq> []"
  shows "1 \<le> foldl colStep 0 u"
proof -
  from assms(2) obtain xs c where u: "u = xs @ [c]"
    by (cases u rule: rev_cases) simp_all
  with assms(1) have "list_all isUpper xs" and "isUpper c" by simp_all
  then have "0 \<le> foldl colStep 0 xs" and "65 \<le> charCode c"
    by (simp_all add: decode_nonneg isUpperD)
  then show ?thesis unfolding u foldl_colStep_snoc by simp
qed


section \<open>normalizeRange\<close>

text \<open>
  Claim C10. A range without \<open>!\<close>, normalised with no sheet name, is the literal
  prefix \<open>Sheet1!\<close> followed by the range as it is; the function reads no spreadsheet,
  so the title is a constant and not the first sheet's. A range that holds \<open>!\<close> is
  returned as it is, whatever the sheet name.
\<close>

theorem normalizeRange_default_sheet:
  "(CHR ''!'' \<notin> set rng \<longrightarrow> normalizeRange rng None = ''Sheet1!'' @ rng) \<and>
   (CHR ''!'' \<in> set rng \<longrightarrow> normalizeRange rng sheetName = rng)"
  by (simp add: normalizeRange_def truthy_def)

theorem normalizeRange_default_sheet_witness:
  "CHR ''!'' \<notin> set ''A1:B2'' \<and> normalizeRange ''A1:B2'' None = ''Sheet1!A1:B2'' \<and>
   CHR ''!'' \<in> set ''Data!C3'' \<and> normalizeRange ''Data!C3'' (Some ''Other'') = ''Data!C3''"
  using normalizeRange_default_sheet [of "''A1:B2''"]
    normalizeRange_default_sheet [of "''Data!C3''" "Some ''Other''"]
  by simp


section \<open>The requests of a table-cell edit\<close>

lemma textStyleRequests_eq:
  "textStyleRequests hasT c a =
     (case textStyle a of
        None \<Rightarrow> []
      | Some st \<Rightarrow>
          if cellStartIndex c < newTextEnd c (textContent a) \<and> hasT st
          then [UpdateTextStyle (cellStartIndex c) (newTextEnd c (textContent a)) st (tabId a)]
          else [])"
  by (cases "textStyle a")
    (simp_all add: textStyleRequests_def Let_def buildUpdateTextStyleRequest_def)

lemma paragraphStyleRequests_eq:
  "paragraphStyleRequests hasP c a =
     (case paragraphStyle a of
        None \<Rightarrow> []
      | Some st \<Rightarrow>
          if cellStartIndex c \<le> newTextEnd c (textContent a) \<and> hasP st
          then [UpdateParagraphStyle (cellStartIndex c) (newTextEnd c (textContent a) + 1) st (tabId a)]
          else [])"
  by (cases "paragraphStyle a"; cases "textContent a")
    (simp_all add: paragraphStyleRequests_def Let_def buildUpdateParagraphStyleRequest_def
      newTextEnd_def)

lemma contentRequests_eq:
  "contentRequests c (Some T) =
     (if cellStartIndex c < cellEndIndex c
      then [DeleteContentRange (cellStartIndex c) (cellEndIndex c)] else [])
     @ (if T \<noteq> [] then [InsertText (cellStartIndex c) T] else [])"
  "contentRequests c None = []"
  by (simp_all add: contentRequests_def)

lemma filter_isDelete_style [simp]:
  "filter isDelete (textStyleRequests hasT c a) = []"
  "filter isDelete (paragraphStyleRequests hasP c a) = []"
  "filter isInsert (textStyleRequests hasT c a) = []"
  "filter isInsert (paragraphStyleRequests hasP c a) = []"
  by (cases "textStyle a"; cases "paragraphStyle a";
      simp add: textStyleRequests_eq paragraphStyleRequests_eq)+

lemma filter_style_content [simp]:
  "filter isTextStyle (contentRequests c t) = []"
  "filter isParagraphStyle (contentRequests c t) = []"
  "filter isTextStyle (paragraphStyleRequests hasP c a) = []"
  "filter isParagraphStyle (textStyleRequests hasT c a) = []"
  by (cases t; cases "textStyle a"; cases "paragraphStyle a";
      simp add: contentRequests_eq textStyleRequests_eq paragraphStyleRequests_eq)+

text \<open>
  Claim C1. For an edit with replacement text \<open>T\<close> over the resolved range
  \<open>[start, end)\<close>: the delete request for \<open>[start, end)\<close> is among the requests exactly
  when \<open>end > start\<close>, and it is the only delete request; the insert request at \<open>start\<close>
  is among them exactly when \<open>T\<close> is not empty, and it is the only insert request; and
  with a text style (from which the helper builds a request) and no paragraph style, a
  replacement of length 8 over \<open>[10, 15)\<close> gives exactly the delete of \<open>[10, 15)\<close>, the
  insert at 10 and the style request for \<open>[10, 18)\<close>, in that order.
\<close>

theorem editTableCell_delete_insert_style:
  assumes "textContent args = Some T"
  shows "(DeleteContentRange (cellStartIndex c) (cellEndIndex c)
            \<in> set (editTableCellRequests hasT hasP c args)
          \<longleftrightarrow> cellEndIndex c > cellStartIndex c) \<and>
         filter isDelete (editTableCellRequests hasT hasP c args) =
           (if cellEndIndex c > cellStartIndex c
            then [DeleteContentRange (cellStartIndex c) (cellEndIndex c)] else []) \<and>
         (InsertText (cellStartIndex c) T \<in> set (editTableCellRequests hasT hasP c args)
          \<longleftrightarrow> T \<noteq> []) \<and>
         filter isInsert (editTableCellRequests hasT hasP c args) =
           (if T \<noteq> [] then [InsertText (cellStartIndex c) T] else []) \<and>
         (cellStartIndex c = 10 \<and> cellEndIndex c = 15 \<and> length T = 8 \<and>
          textStyle args = Some ts \<and> hasT ts \<and> paragraphStyle args = None
          \<longrightarrow> editTableCellRequests hasT hasP c args =
                [DeleteContentRange 10 15, InsertText 10 T, UpdateTextStyle 10 18 ts (tabId args)])"
proof -
  let ?reqs = "editTableCellRequests hasT hasP c args"
  have fd: "filter isDelete ?reqs =
      (if cellEndIndex c > cellStartIndex c
       then [DeleteContentRange (cellStartIndex c) (cellEndIndex c)] else [])"
    using assms by (simp add: editTableCellRequests_def contentRequests_eq)
  have fi: "filter isInsert ?reqs = (if T \<noteq> [] then [InsertText (cellStartIndex c) T] else [])"
    using assms by (simp add: editTableCellRequests_def contentRequests_eq)
  have md: "DeleteContentRange (cellStartIndex c) (cellEndIndex c) \<in> set ?reqs
      \<longleftrightarrow> cellEndIndex c > cellStartIndex c"
  proof -
    have "DeleteContentRange (cellStartIndex c) (cellEndIndex c) \<in> set ?reqs
        \<longleftrightarrow> DeleteContentRange (cellStartIndex c) (cellEndIndex c) \<in> set (filter isDelete ?reqs)"
      by simp
    then show ?thesis unfolding fd by simp
  qed
  have mi: "InsertText (cellStartIndex c) T \<in> set ?reqs \<longleftrightarrow> T \<noteq> []"
  proof -
    have "InsertText (cellStartIndex c) T \<in> set ?reqs
        \<longleftrightarrow> InsertText (cellStartIndex c) T \<in> set (filter isInsert ?reqs)"
      by simp
    then show ?thesis unfolding fi by simp
  qed
  have ex: "editTableCellRequests hasT hasP c args =
      [DeleteContentRange 10 15, InsertText 10 T, UpdateTextStyle 10 18 ts (tabId args)]"
    if "cellStartIndex c = 10 \<and> cellEndIndex c = 15 \<and> length T = 8 \<and>
        textStyle args = Some ts \<and> hasT ts \<and> paragraphStyle args = None"
  proof -
    from that have "T \<noteq> []" by auto
    with that assms show ?thesis
      by (simp add: editTableCellRequests_def contentRequests_eq textStyleRequests_eq
          paragraphStyleRequests_eq newTextEnd_def)
  qed
  from md fd mi fi ex show ?thesis by blast
qed

theorem editTableCell_delete_insert_style_witness:
  "textContent \<lparr>textContent = Some ''newtext8'', textStyle = Some True,
                 paragraphStyle = None :: unit option, tabId = None\<rparr> = Some ''newtext8'' \<and>
   length ''newtext8'' = 8 \<and> everyStyle True \<and>
   editTableCellRequests everyStyle everyStyle \<lparr>cellStartIndex = 10, cellEndIndex = 15\<rparr>
     \<lparr>textContent = Some ''newtext8'', textStyle = Some True,
      paragraphStyle = None :: unit option, tabId = None\<rparr>
   = [DeleteContentRange 10 15, InsertText 10 ''newtext8'', UpdateTextStyle 10 18 True None]"
  using editTableCell_delete_insert_style
    [of "\<lparr>textContent = Some ''newtext8'', textStyle = Some True,
          paragraphStyle = None :: unit option, tabId = None\<rparr>"
        "''newtext8''" "\<lparr>cellStartIndex = 10, cellEndIndex = 15\<rparr>" everyStyle everyStyle True]
  by (simp add: everyStyle_def)

text \<open>
  Claim C2, as stated, fails where the replacement text is the empty string: the cell
  content \<open>[10, 15)\<close> is deleted, nothing is inserted, and yet the new end is the start,
  10, and not the original end, 15; the paragraph style covers \<open>[10, 11)\<close> and not
  \<open>[10, 16)\<close>.
\<close>

theorem paragraph_range_counterexample:
  "\<not> list_ex isInsert
       (editTableCellRequests everyStyle everyStyle \<lparr>cellStartIndex = 10, cellEndIndex = 15\<rparr>
          \<lparr>textContent = Some [], textStyle = None :: unit option,
           paragraphStyle = Some True, tabId = None\<rparr>) \<and>
   newTextEnd \<lparr>cellStartIndex = 10, cellEndIndex = 15\<rparr> (Some []) = 10 \<and>
   newTextEnd \<lparr>cellStartIndex = 10, cellEndIndex = 15\<rparr> (Some [])
     \<noteq> cellEndIndex \<lparr>cellStartIndex = 10, cellEndIndex = 15\<rparr> \<and>
   editTableCellRequests everyStyle everyStyle \<lparr>cellStartIndex = 10, cellEndIndex = 15\<rparr>
     \<lparr>textContent = Some [], textStyle = None :: unit option,
      paragraphStyle = Some True, tabId = None\<rparr>
   = [DeleteContentRange 10 15, UpdateParagraphStyle 10 11 True None]"
  by (simp add: editTableCellRequests_def contentRequests_eq textStyleRequests_eq
      paragraphStyleRequests_eq newTextEnd_def everyStyle_def)

text \<open>
  Claim C2, amended. With \<open>newEnd\<close> the start plus the length of the replacement text
  when a replacement text is supplied (the start itself when that text is empty) and
  the original end when none is supplied: the text-style request of an edit, if there is
  one, covers \<open>[start, newEnd)\<close>, and there is one exactly when a text style is given,
  \<open>newEnd > start\<close> and the helper builds a request; the paragraph-style request, if
  there is one, covers \<open>[start, newEnd + 1)\<close>, which is \<open>[start, end + 1)\<close> when no
  replacement text is supplied, and there is one exactly when a paragraph style is given,
  \<open>newEnd \<ge> start\<close> and the helper builds a request.
\<close>

theorem editTableCell_style_ranges:
  "filter isTextStyle (editTableCellRequests hasT hasP c args) =
     (case textStyle args of
        None \<Rightarrow> []
      | Some ts \<Rightarrow>
          if cellStartIndex c <
               (case textContent args of
                  Some T \<Rightarrow> cellStartIndex c + int (length T) | None \<Rightarrow> cellEndIndex c)
             \<and> hasT ts
          then [UpdateTextStyle (cellStartIndex c)
                  (case textContent args of
                     Some T \<Rightarrow> cellStartIndex c + int (length T) | None \<Rightarrow> cellEndIndex c)
                  ts (tabId args)]
          else []) \<and>
   filter isParagraphStyle (editTableCellRequests hasT hasP c args) =
     (case paragraphStyle args of
        None \<Rightarrow> []
      | Some ps \<Rightarrow>
          if cellStartIndex c \<le>
               (case textContent args of
                  Some T \<Rightarrow> cellStartIndex c + int (length T) | None \<Rightarrow> cellEndIndex c)
             \<and> hasP ps
          then [UpdateParagraphStyle (cellStartIndex c)
                  ((case textContent args of
                      Some T \<Rightarrow> cellStartIndex c + int (length T) | None \<Rightarrow> cellEndIndex c) + 1)
                  ps (tabId args)]
          else [])"
proof -
  have ne: "newTextEnd c (textContent args) =
      (case textContent args of
         Some T \<Rightarrow> cellStartIndex c + int (length T) | None \<Rightarrow> cellEndIndex c)"
    by (simp add: newTextEnd_def)
  have t: "filter isTextStyle (editTableCellRequests hasT hasP c args) =
      textStyleRequests hasT c args"
    by (cases "textStyle args") (simp_all add: editTableCellRequests_def textStyleRequests_eq)
  have p: "filter isParagraphStyle (editTableCellRequests hasT hasP c args) =
      paragraphStyleRequests hasP c args"
    by (cases "paragraphStyle args")
      (simp_all add: editTableCellRequests_def paragraphStyleRequests_eq)
  show ?thesis
    unfolding t p textStyleRequests_eq paragraphStyleRequests_eq ne by simp
qed

section \<open>Clearing the conditional-format rules of a sheet\<close>

lemma deleteRuleRequests_eq:
  "deleteRuleRequests sid n = map (\<lambda>i. DeleteConditionalFormatRule sid (int i)) (rev [0..<n])"
  by (induction n) simp_all

lemma find_collectRules:
  "find (\<lambda>s. rulesSheetId s = sid) (collectRules (Some sid) sheets) =
     map_option
       (\<lambda>sheet. \<lparr>rulesSheetId = sid,
                  rulesSheetName = (if truthy (propTitle sheet) then the (propTitle sheet) else ''Unknown''),
                  rules = (case conditionalFormats sheet of None \<Rightarrow> [] | Some rs \<Rightarrow> rs)\<rparr>)
       (find (\<lambda>s. propSheetId s = Some sid) sheets)"
proof (induction sheets)
  case Nil
  show ?case by simp
next
  case (Cons sheet sheets)
  show ?case
  proof (cases "propSheetId sheet = Some sid")
    case True
    then show ?thesis by simp
  next
    case False
    then show ?thesis using Cons.IH by simp
  qed
qed

text \<open>
  Claim C3. When the metadata read answers and the sheet has \<open>N > 0\<close> rules, clearing
  submits exactly one batch; the batch holds exactly \<open>N\<close> delete-by-index requests for
  that sheet, and their indices are \<open>N - 1, N - 2, ..., 0\<close> in this order, so strictly
  descending.
\<close>

theorem clearConditionalFormatRules_descending:
  assumes "getResult remote = Inr sheets"
    and "find (\<lambda>s. propSheetId s = Some sid) sheets = Some sheet"
    and "conditionalFormats sheet = Some rs"
    and "length rs > 0"
  shows "snd (clearConditionalFormatRules remote sid) =
           [map (\<lambda>i. DeleteConditionalFormatRule sid (int i)) (rev [0..<length rs])] \<and>
         length (map (\<lambda>i. DeleteConditionalFormatRule sid (int i)) (rev [0..<length rs])) = length rs \<and>
         sorted_wrt (\<lambda>i j. i > j) (rev [0..<length rs])"
proof -
  have rules: "getConditionalFormatRules (getResult remote) (Some sid) = Inr (collectRules (Some sid) sheets)"
    using assms(1) by (simp add: getConditionalFormatRules_def)
  have found: "find (\<lambda>s. rulesSheetId s = sid) (collectRules (Some sid) sheets) =
      Some \<lparr>rulesSheetId = sid,
            rulesSheetName = (if truthy (propTitle sheet) then the (propTitle sheet) else ''Unknown''),
            rules = rs\<rparr>"
    unfolding find_collectRules using assms(2,3) by simp
  have batch: "snd (clearConditionalFormatRules remote sid) = [deleteRuleRequests sid (length rs)]"
    using assms(4)
    by (cases "batchUpdateResult remote (deleteRuleRequests sid (length rs))")
      (simp_all add: clearConditionalFormatRules_def rules found)
  have desc: "sorted_wrt (\<lambda>i j. i > j) (rev [0..<length rs])"
    by (simp add: sorted_wrt_rev)
  from batch desc show ?thesis
    by (simp add: deleteRuleRequests_eq)
qed

theorem clearConditionalFormatRules_descending_witness:
  "snd (clearConditionalFormatRules
          \<lparr>getResult = Inr [\<lparr>propSheetId = Some 7, propTitle = Some ''Data'',
                             conditionalFormats = Some [''r0'', ''r1'', ''r2'']\<rparr>],
           batchUpdateResult = (\<lambda>requests. Inr ())\<rparr> 7) =
     [[DeleteConditionalFormatRule 7 2, DeleteConditionalFormatRule 7 1,
       DeleteConditionalFormatRule 7 0]]"
proof -
  let ?sheet = "\<lparr>propSheetId = Some 7, propTitle = Some ''Data'',
                 conditionalFormats = Some [''r0'', ''r1'', ''r2'']\<rparr>"
  let ?remote = "\<lparr>getResult = Inr [?sheet], batchUpdateResult = (\<lambda>requests. Inr ())\<rparr>
                   :: (string, unit) Remote"
  have 1: "getResult ?remote = Inr [?sheet]" by simp
  have 2: "find (\<lambda>s. propSheetId s = Some 7) [?sheet] = Some ?sheet" by simp
  have 3: "conditionalFormats ?sheet = Some [''r0'', ''r1'', ''r2'']" by simp
  have 4: "length [''r0'', ''r1'', ''r2''] > 0" by simp
  have 5: "rev [0..<length [''r0'', ''r1'', ''r2'']] = [2, 1, 0]"
    by (simp add: upt_rec)
  from clearConditionalFormatRules_descending [OF 1 2 3 4] show ?thesis
    unfolding 5 by simp
qed

section \<open>Resolving a sheet name\<close>





section \<open>Field masks and payloads\<close>

text \<open>
  The mask parts and the payload of \<open>batchFormat\<close> and of \<open>freezeRowsAndColumns\<close> are
  built together and name the same attributes.
\<close>

lemma textInv_init: "textInv parts0 (emptyTextFormat, False, parts0)"
  by (simp add: textInv_def textFormatPaths_def emptyTextFormat_def)

lemma textInv_setFontColor: "textInv p st \<Longrightarrow> textInv p (setFontColor fmt st)"
  by (cases st) (auto simp: textInv_def setFontColor_def textFormatPaths_def split: option.splits)

lemma textInv_setFontSize: "textInv p st \<Longrightarrow> textInv p (setFontSize fmt st)"
  by (cases st) (auto simp: textInv_def setFontSize_def textFormatPaths_def split: option.splits)

lemma textInv_setBold: "textInv p st \<Longrightarrow> textInv p (setBold fmt st)"
  by (cases st) (auto simp: textInv_def setBold_def textFormatPaths_def split: option.splits)

lemma textInv_setItalic: "textInv p st \<Longrightarrow> textInv p (setItalic fmt st)"
  by (cases st) (auto simp: textInv_def setItalic_def textFormatPaths_def split: option.splits)

lemma textInv_setFontFamily: "textInv p st \<Longrightarrow> textInv p (setFontFamily fmt st)"
  by (cases st) (auto simp: textInv_def setFontFamily_def textFormatPaths_def truthy_def
      split: option.splits)

lemma textInv_build: "textInv parts0 (textFormatBuild fmt parts0)"
  unfolding textFormatBuild_def
  by (intro textInv_setFontFamily textInv_setItalic textInv_setBold textInv_setFontSize
      textInv_setFontColor textInv_init)

lemma maskInv_init: "maskInv (emptyCellFormat, [])"
  by (simp add: maskInv_def populatedPaths_def emptyCellFormat_def)

lemma maskInv_setBackgroundColor: "maskInv st \<Longrightarrow> maskInv (setBackgroundColor fmt st)"
  by (cases st) (auto simp: maskInv_def setBackgroundColor_def populatedPaths_def split: option.splits)

lemma background_textFormat:
  "setBackgroundColor fmt (emptyCellFormat, []) = (f, parts) \<Longrightarrow> textFormat f = None"
  by (auto simp: setBackgroundColor_def emptyCellFormat_def split: option.splits if_splits)

lemma maskInv_attach:
  assumes "maskInv (f, parts0)" and "textFormat f = None" and "textInv parts0 st"
  shows "maskInv (attachTextFormat f st)"
proof -
  obtain t has parts where st: "st = (t, has, parts)" by (cases st)
  show ?thesis
  proof (cases has)
    case True
    with assms show ?thesis
      by (auto simp: st maskInv_def textInv_def attachTextFormat_def populatedPaths_def)
  next
    case False
    with assms show ?thesis
      by (auto simp: st maskInv_def textInv_def attachTextFormat_def populatedPaths_def)
  qed
qed

lemma maskInv_setHorizontalAlignment: "maskInv st \<Longrightarrow> maskInv (setHorizontalAlignment fmt st)"
  by (cases st) (auto simp: maskInv_def setHorizontalAlignment_def populatedPaths_def split: option.splits)

lemma maskInv_setVerticalAlignment: "maskInv st \<Longrightarrow> maskInv (setVerticalAlignment fmt st)"
  by (cases st) (auto simp: maskInv_def setVerticalAlignment_def populatedPaths_def split: option.splits)

lemma maskInv_setNumberFormat: "maskInv st \<Longrightarrow> maskInv (setNumberFormat fmt st)"
  by (cases st) (auto simp: maskInv_def setNumberFormat_def populatedPaths_def split: option.splits)

lemma maskInv_setWrapStrategy: "maskInv st \<Longrightarrow> maskInv (setWrapStrategy fmt st)"
  by (cases st) (auto simp: maskInv_def setWrapStrategy_def populatedPaths_def split: option.splits)

lemma cellFormatBuild_mask_agrees:
  assumes "cellFormatBuild fmt = (f, parts)"
  shows "set parts = set (populatedPaths f)"
proof -
  obtain f0 parts0 where bg: "setBackgroundColor fmt (emptyCellFormat, []) = (f0, parts0)"
    by (cases "setBackgroundColor fmt (emptyCellFormat, [])")
  have "maskInv (f0, parts0)"
    using maskInv_setBackgroundColor [OF maskInv_init, of fmt] by (simp add: bg)
  then have "maskInv (attachTextFormat f0 (textFormatBuild fmt parts0))"
    using background_textFormat [OF bg] textInv_build by (rule maskInv_attach)
  then have "maskInv (cellFormatBuild fmt)"
    unfolding cellFormatBuild_def bg
    by (simp add: maskInv_setWrapStrategy maskInv_setNumberFormat
        maskInv_setVerticalAlignment maskInv_setHorizontalAlignment)
  then show ?thesis
    by (simp add: assms maskInv_def)
qed

lemma freezeBuild_mask_agrees:
  "freezeBuild frozenRows frozenColumns = (g, parts) \<Longrightarrow> set parts = set (gridPropertiesPaths g)"
  by (cases frozenRows; cases frozenColumns)
    (auto simp: freezeBuild_def gridPropertiesPaths_def emptyGridProperties_def)

text \<open>
  Claim C4 holds for \<open>batchFormat\<close> and \<open>freezeRowsAndColumns\<close> (the two lemmas above)
  and fails for \<open>formatCells\<close>, whose mask is a constant: asked for bold text only, it
  sends a payload that populates \<open>textFormat.bold\<close> alone under a mask that lists the
  background colour, the text format and both alignments.
\<close>

theorem formatCells_mask_lists_unpopulated:
  "snd (formatCells exampleRemote ''Data!A1'' boldOnly) =
     [[RepeatCell
         \<lparr>sheetId = 7, startRowIndex = Some 0, endRowIndex = Some 1,
          startColumnIndex = Some 0, endColumnIndex = Some 1\<rparr>
         \<lparr>backgroundColor = None,
          textFormat = Some \<lparr>foregroundColor = None, fontSize = None, bold = Some True,
                             italic = None, fontFamily = None\<rparr>,
          horizontalAlignment = None, verticalAlignment = None,
          numberFormat = None, wrapStrategy = None\<rparr>
         ''userEnteredFormat(backgroundColor,textFormat,horizontalAlignment,verticalAlignment)'']] \<and>
   populatedPaths (formatCellsFormat boldOnly) = [''userEnteredFormat.textFormat.bold'']"
  by code_simp

section \<open>Hex colours\<close>

lemma hexToRgb_red: "hexToRgb ''#FF0000'' = Some \<lparr>red = 1, green = 0, blue = 0\<rparr>"
  by code_simp

lemma hexToRgb_red_short: "hexToRgb ''F00'' = Some \<lparr>red = 1, green = 0, blue = 0\<rparr>"
  by code_simp

lemma hexToRgb_short_form:
  "length h = 3 \<Longrightarrow> hexToRgb h = hexToRgb [h ! 0, h ! 0, h ! 1, h ! 1, h ! 2, h ! 2]"
  by (cases h) (auto simp: hexToRgb_def Let_def)

lemma hexToRgb_other_lengths:
  "length h \<noteq> 3 \<Longrightarrow> length h \<noteq> 6 \<Longrightarrow> CHR ''#'' \<notin> set h \<Longrightarrow> hexToRgb h = None"
  by (cases h) (auto simp: hexToRgb_def Let_def)

lemma hexToRgb_not_hex: "hexToRgb ''GGGGGG'' = None"
  by code_simp

text \<open>
  Claim C8 holds for well-formed input (the lemmas above) and fails for a malformed
  one: \<open>parseInt\<close> reads the hexadecimal digits at the head of the text and ignores the
  rest, so the \<open>isNaN\<close> test lets \<open>12345G\<close> through, and the answer is the colour of
  \<open>0x12345\<close> instead of \<open>null\<close>.
\<close>

theorem hexToRgb_accepts_malformed:
  "hexToRgb ''12345G'' = Some \<lparr>red = 1 / 255, green = 35 / 255, blue = 69 / 255\<rparr>"
  by code_simp

section \<open>The range patterns\<close>

lemma colon_class [simp]: "\<not> isDigit (CHR '':'')" "\<not> isLetter (CHR '':'')"
  by (simp_all add: isDigit_def isLetter_def isUpper_def isLower_def charCode_def)

lemma digit_not_letter: "isDigit c \<Longrightarrow> \<not> isLetter c"
  by (auto simp: isDigit_def isLetter_def isUpper_def isLower_def)

lemma letter_not_digit: "isLetter c \<Longrightarrow> \<not> isDigit c"
  by (auto simp: isDigit_def isLetter_def isUpper_def isLower_def)

lemma takeWhile_run:
  assumes "list_all cls g" and "r = [] \<or> \<not> cls (hd r)"
  shows "takeWhile cls (g @ r) = g" and "dropWhile cls (g @ r) = r"
proof -
  from assms(1) have all: "\<And>x. x \<in> set g \<Longrightarrow> cls x"
    by (simp add: list_all_iff)
  from assms(2) have "takeWhile cls r = []" and "dropWhile cls r = r"
    by (cases r; auto)+
  then show "takeWhile cls (g @ r) = g" and "dropWhile cls (g @ r) = r"
    using all by (simp_all add: takeWhile_append2 dropWhile_append2)
qed

lemma takeWhile_all:
  assumes "list_all cls g"
  shows "takeWhile cls g = g" and "dropWhile cls g = []"
  using assms by (simp_all add: list_all_iff)

lemma list_all_takeWhile: "list_all cls (takeWhile cls s)"
  by (induction s) simp_all

lemma bandMatch_single:
  assumes "g \<noteq> []" and "list_all cls g"
  shows "bandMatch cls g = Some (g, None)"
  unfolding bandMatch_def Let_def takeWhile_all [OF assms(2)]
  using assms(1) by simp

lemma bandMatch_pair:
  assumes "g1 \<noteq> []" and "list_all cls g1" and "g2 \<noteq> []" and "list_all cls g2"
    and "\<not> cls (CHR '':'')"
  shows "bandMatch cls (g1 @ CHR '':'' # g2) = Some (g1, Some g2)"
proof -
  have "CHR '':'' # g2 = [] \<or> \<not> cls (hd (CHR '':'' # g2))"
    using assms(5) by simp
  note run = takeWhile_run [OF assms(2) this]
  show ?thesis
    unfolding bandMatch_def Let_def run
    using assms(1,3,4) by simp
qed

lemma bandMatch_SomeD:
  assumes "bandMatch cls s = Some (g1, g2)"
  shows "g1 \<noteq> [] \<and> list_all cls g1 \<and>
         (case g2 of
            None \<Rightarrow> s = g1
          | Some g \<Rightarrow> g \<noteq> [] \<and> list_all cls g \<and> s = g1 @ CHR '':'' # g)"
proof -
  define t d where "t = takeWhile cls s" and "d = dropWhile cls s"
  have s: "t @ d = s" by (simp add: t_def d_def)
  have t: "list_all cls t" by (simp add: t_def list_all_takeWhile)
  have m: "(if t = [] then None
            else (case d of
                    [] \<Rightarrow> Some (t, None)
                  | c # g \<Rightarrow> if c = CHR '':'' \<and> g \<noteq> [] \<and> list_all cls g
                             then Some (t, Some g) else None)) = Some (g1, g2)"
    using assms unfolding bandMatch_def Let_def t_def [symmetric] d_def [symmetric] .
  then have ne: "t \<noteq> []" by (cases "t = []") simp_all
  show ?thesis
  proof (cases d)
    case Nil
    with m ne have "g1 = t" "g2 = None" by simp_all
    moreover from s Nil have "s = t" by simp
    ultimately show ?thesis using t ne by simp
  next
    case (Cons c r)
    with m ne have g: "c = CHR '':'' \<and> r \<noteq> [] \<and> list_all cls r"
      by (cases "c = CHR '':'' \<and> r \<noteq> [] \<and> list_all cls r") simp_all
    with m ne Cons have "g1 = t" "g2 = Some r" by simp_all
    moreover from s Cons g have "s = t @ CHR '':'' # r" by simp
    ultimately show ?thesis using t ne g by simp
  qed
qed

lemma cellPrefix_SomeD:
  assumes "cellPrefix s = Some (l, d, r)"
  shows "lettersOnly l \<and> digitsOnly d \<and> s = l @ d @ r"
proof -
  define l' r1 where "l' = takeWhile isLetter s" and "r1 = dropWhile isLetter s"
  define d' r2 where "d' = takeWhile isDigit r1" and "r2 = dropWhile isDigit r1"
  have m: "(if l' = [] \<or> d' = [] then None else Some (l', d', r2)) = Some (l, d, r)"
    using assms unfolding cellPrefix_def Let_def l'_def [symmetric] r1_def [symmetric]
      d'_def [symmetric] r2_def [symmetric] .
  then have ne: "l' \<noteq> []" "d' \<noteq> []"
    by (cases "l' = [] \<or> d' = []"; simp)+
  with m have eq: "l = l'" "d = d'" "r = r2" by simp_all
  have "list_all isLetter l'" "list_all isDigit d'"
    by (simp_all add: l'_def d'_def list_all_takeWhile)
  moreover have "l' @ d' @ r2 = s"
    by (simp add: l'_def r1_def d'_def r2_def)
  ultimately show ?thesis
    using ne unfolding eq lettersOnly_def digitsOnly_def by blast
qed

lemma cellPrefix_complete:
  assumes "lettersOnly l" and "digitsOnly d" and "r = [] \<or> \<not> isDigit (hd r)"
  shows "cellPrefix (l @ d @ r) = Some (l, d, r)"
proof -
  from assms(2) have "\<not> isLetter (hd (d @ r))"
    by (cases d) (auto simp: digitsOnly_def digit_not_letter)
  then have 1: "takeWhile isLetter (l @ d @ r) = l" "dropWhile isLetter (l @ d @ r) = d @ r"
    using takeWhile_run [of isLetter l "d @ r"] assms(1) by (simp_all add: lettersOnly_def)
  have 2: "takeWhile isDigit (d @ r) = d" "dropWhile isDigit (d @ r) = r"
    using takeWhile_run [of isDigit d r] assms(2,3) by (simp_all add: digitsOnly_def)
  show ?thesis
    using assms(1,2) by (simp add: cellPrefix_def 1 2 lettersOnly_def digitsOnly_def)
qed

lemma standardMatch_single:
  assumes "lettersOnly l" and "digitsOnly d"
  shows "standardMatch (l @ d) = Some (l, d, None, None)"
  using cellPrefix_complete [OF assms, of "[]"] by (simp add: standardMatch_def)

lemma standardMatch_pair:
  assumes "lettersOnly l1" and "digitsOnly d1" and "lettersOnly l2" and "digitsOnly d2"
  shows "standardMatch (l1 @ d1 @ CHR '':'' # l2 @ d2) = Some (l1, d1, Some l2, Some d2)"
proof -
  have "cellPrefix (l1 @ d1 @ CHR '':'' # l2 @ d2) = Some (l1, d1, CHR '':'' # l2 @ d2)"
    using cellPrefix_complete [OF assms(1,2), of "CHR '':'' # l2 @ d2"] by simp
  moreover have "cellPrefix (l2 @ d2) = Some (l2, d2, [])"
    using cellPrefix_complete [OF assms(3,4), of "[]"] by simp
  ultimately show ?thesis
    by (simp add: standardMatch_def)
qed

lemma standardMatch_SomeD:
  assumes "standardMatch s = Some (g1, g2, g3, g4)"
  shows "lettersOnly g1 \<and> digitsOnly g2 \<and>
         ((g3 = None \<and> g4 = None \<and> s = g1 @ g2) \<or>
          (\<exists>l d. g3 = Some l \<and> g4 = Some d \<and> lettersOnly l \<and> digitsOnly d \<and>
                 s = g1 @ g2 @ CHR '':'' # l @ d))"
proof -
  from assms obtain rest where p: "cellPrefix s = Some (g1, g2, rest)"
    by (auto simp: standardMatch_def split: option.splits list.splits if_splits)
  note h = cellPrefix_SomeD [OF p]
  show ?thesis
  proof (cases rest)
    case Nil
    with assms p have "g3 = None" "g4 = None"
      by (simp_all add: standardMatch_def)
    with h Nil show ?thesis by simp
  next
    case (Cons c r)
    with assms p obtain l d where q: "c = CHR '':''" "cellPrefix r = Some (l, d, [])"
      "g3 = Some l" "g4 = Some d"
      by (auto simp: standardMatch_def split: option.splits list.splits if_splits)
    from cellPrefix_SomeD [OF q(2)] h Cons q show ?thesis by simp
  qed
qed

lemma bandMatch_None_hd: "s \<noteq> [] \<Longrightarrow> \<not> cls (hd s) \<Longrightarrow> bandMatch cls s = None"
  by (cases s) (simp_all add: bandMatch_def)

lemma lettersOnly_hd: "lettersOnly l \<Longrightarrow> l @ r \<noteq> [] \<and> \<not> isDigit (hd (l @ r))"
  by (cases l) (auto simp: lettersOnly_def letter_not_digit)

lemma rowOnlyMatch_letters: "lettersOnly l \<Longrightarrow> rowOnlyMatch (l @ r) = None"
  unfolding rowOnlyMatch_def using lettersOnly_hd [of l r] by (simp add: bandMatch_None_hd)

lemma lettersOnly_no_digit: "lettersOnly l \<Longrightarrow> \<not> list_ex isDigit l"
  by (auto simp: lettersOnly_def list_ex_iff list_all_iff letter_not_digit)

lemma digitsOnly_has_digit: "digitsOnly d \<Longrightarrow> list_ex isDigit (l @ d @ r)"
  by (cases d) (auto simp: digitsOnly_def list_ex_iff)

lemma no_colon: "lettersOnly l \<Longrightarrow> CHR '':'' \<notin> set l" "digitsOnly d \<Longrightarrow> CHR '':'' \<notin> set d"
  using colon_class by (auto simp: lettersOnly_def digitsOnly_def list_all_iff)

text \<open>The six shapes of an accepted address, and the grid range each one gives.\<close>

lemma parse_row:
  assumes "digitsOnly d"
  shows "parseA1ToGridRange d sid =
           Inr \<lparr>sheetId = sid, startRowIndex = Some (parseInt10 d - 1),
                endRowIndex = Some (parseInt10 d - 1 + 1),
                startColumnIndex = None, endColumnIndex = None\<rparr>"
proof -
  have "rowOnlyMatch d = Some (d, None)"
    using assms unfolding rowOnlyMatch_def digitsOnly_def by (simp add: bandMatch_single)
  then show ?thesis by (simp add: parseA1ToGridRange_def Let_def)
qed

lemma parse_rows:
  assumes "digitsOnly d1" and "digitsOnly d2"
  shows "parseA1ToGridRange (d1 @ CHR '':'' # d2) sid =
           Inr \<lparr>sheetId = sid, startRowIndex = Some (parseInt10 d1 - 1),
                endRowIndex = Some (parseInt10 d2),
                startColumnIndex = None, endColumnIndex = None\<rparr>"
proof -
  have "rowOnlyMatch (d1 @ CHR '':'' # d2) = Some (d1, Some d2)"
    using assms unfolding rowOnlyMatch_def digitsOnly_def by (simp add: bandMatch_pair)
  then show ?thesis by (simp add: parseA1ToGridRange_def Let_def)
qed

lemma parse_column:
  assumes "lettersOnly l"
  shows "parseA1ToGridRange l sid =
           Inr \<lparr>sheetId = sid, startRowIndex = None, endRowIndex = None,
                startColumnIndex = Some (colLettersToIndex l),
                endColumnIndex = Some (colLettersToIndex l + 1)\<rparr>"
proof -
  have "rowOnlyMatch l = None"
    using rowOnlyMatch_letters [OF assms, of "[]"] by simp
  moreover have "colOnlyMatch l = Some (l, None)"
    using assms unfolding colOnlyMatch_def lettersOnly_def by (simp add: bandMatch_single)
  ultimately show ?thesis
    using lettersOnly_no_digit [OF assms] by (simp add: parseA1ToGridRange_def Let_def)
qed

lemma parse_columns:
  assumes "lettersOnly l1" and "lettersOnly l2"
  shows "parseA1ToGridRange (l1 @ CHR '':'' # l2) sid =
           Inr \<lparr>sheetId = sid, startRowIndex = None, endRowIndex = None,
                startColumnIndex = Some (colLettersToIndex l1),
                endColumnIndex = Some (colLettersToIndex l2 + 1)\<rparr>"
proof -
  have "rowOnlyMatch (l1 @ CHR '':'' # l2) = None"
    by (rule rowOnlyMatch_letters [OF assms(1)])
  moreover have "colOnlyMatch (l1 @ CHR '':'' # l2) = Some (l1, Some l2)"
    using assms unfolding colOnlyMatch_def lettersOnly_def by (simp add: bandMatch_pair)
  moreover have "\<not> list_ex isDigit (l1 @ CHR '':'' # l2)"
    using lettersOnly_no_digit [OF assms(1)] lettersOnly_no_digit [OF assms(2)] by simp
  ultimately show ?thesis
    by (simp add: parseA1ToGridRange_def Let_def)
qed

lemma parse_cell:
  assumes "lettersOnly l" and "digitsOnly d"
  shows "parseA1ToGridRange (l @ d) sid =
           Inr \<lparr>sheetId = sid, startRowIndex = Some (parseInt10 d - 1),
                endRowIndex = Some (parseInt10 d - 1 + 1),
                startColumnIndex = Some (colLettersToIndex l),
                endColumnIndex = Some (colLettersToIndex l + 1)\<rparr>"
proof -
  have "rowOnlyMatch (l @ d) = None"
    by (rule rowOnlyMatch_letters [OF assms(1)])
  moreover have "list_ex isDigit (l @ d)"
    using digitsOnly_has_digit [OF assms(2), of l "[]"] by simp
  moreover note standardMatch_single [OF assms]
  ultimately show ?thesis
    by (simp add: parseA1ToGridRange_def Let_def)
qed

lemma parse_cells:
  assumes "lettersOnly l1" and "digitsOnly d1" and "lettersOnly l2" and "digitsOnly d2"
  shows "parseA1ToGridRange (l1 @ d1 @ CHR '':'' # l2 @ d2) sid =
           Inr \<lparr>sheetId = sid, startRowIndex = Some (parseInt10 d1 - 1),
                endRowIndex = Some (parseInt10 d2),
                startColumnIndex = Some (colLettersToIndex l1),
                endColumnIndex = Some (colLettersToIndex l2 + 1)\<rparr>"
proof -
  have "rowOnlyMatch (l1 @ d1 @ CHR '':'' # l2 @ d2) = None"
    by (rule rowOnlyMatch_letters [OF assms(1)])
  moreover have "list_ex isDigit (l1 @ d1 @ CHR '':'' # l2 @ d2)"
    by (rule digitsOnly_has_digit [OF assms(2)])
  moreover note standardMatch_pair [OF assms]
  ultimately show ?thesis
    by (simp add: parseA1ToGridRange_def Let_def)
qed

text \<open>Every accepted address has one of the six shapes.\<close>

lemma parse_shapes:
  assumes "parseA1ToGridRange a1 sid = Inr g"
  shows "(\<exists>d. digitsOnly d \<and> a1 = d) \<or>
         (\<exists>d1 d2. digitsOnly d1 \<and> digitsOnly d2 \<and> a1 = d1 @ CHR '':'' # d2) \<or>
         (\<exists>l. lettersOnly l \<and> a1 = l) \<or>
         (\<exists>l1 l2. lettersOnly l1 \<and> lettersOnly l2 \<and> a1 = l1 @ CHR '':'' # l2) \<or>
         (\<exists>l d. lettersOnly l \<and> digitsOnly d \<and> a1 = l @ d) \<or>
         (\<exists>l1 d1 l2 d2. lettersOnly l1 \<and> digitsOnly d1 \<and> lettersOnly l2 \<and> digitsOnly d2 \<and>
            a1 = l1 @ d1 @ CHR '':'' # l2 @ d2)"
proof (cases "rowOnlyMatch a1")
  case (Some m)
  obtain g1 g2 where m: "m = (g1, g2)" by (cases m)
  from bandMatch_SomeD [of isDigit a1 g1 g2] Some m
  have h: "g1 \<noteq> [] \<and> list_all isDigit g1 \<and>
      (case g2 of None \<Rightarrow> a1 = g1
       | Some g \<Rightarrow> g \<noteq> [] \<and> list_all isDigit g \<and> a1 = g1 @ CHR '':'' # g)"
    by (simp add: rowOnlyMatch_def)
  show ?thesis
  proof (cases g2)
    case None
    with h have "digitsOnly g1 \<and> a1 = g1" by (simp add: digitsOnly_def)
    then show ?thesis by blast
  next
    case (Some g')
    with h have "digitsOnly g1 \<and> digitsOnly g' \<and> a1 = g1 @ CHR '':'' # g'"
      by (simp add: digitsOnly_def)
    then show ?thesis by blast
  qed
next
  case None
  note row = None
  show ?thesis
  proof (cases "if list_ex isDigit a1 then None else colOnlyMatch a1")
    case (Some m)
    obtain g1 g2 where m: "m = (g1, g2)" by (cases m)
    from Some m have "colOnlyMatch a1 = Some (g1, g2)"
      by (simp split: if_splits)
    from bandMatch_SomeD [of isLetter a1 g1 g2] this
    have h: "g1 \<noteq> [] \<and> list_all isLetter g1 \<and>
        (case g2 of None \<Rightarrow> a1 = g1
         | Some g \<Rightarrow> g \<noteq> [] \<and> list_all isLetter g \<and> a1 = g1 @ CHR '':'' # g)"
      by (simp add: colOnlyMatch_def)
    show ?thesis
    proof (cases g2)
      case None
      with h have "lettersOnly g1 \<and> a1 = g1" by (simp add: lettersOnly_def)
      then show ?thesis by blast
    next
      case (Some g')
      with h have "lettersOnly g1 \<and> lettersOnly g' \<and> a1 = g1 @ CHR '':'' # g'"
        by (simp add: lettersOnly_def)
      then show ?thesis by blast
    qed
  next
    case None
    with row assms obtain g1 g2 g3 g4 where "standardMatch a1 = Some (g1, g2, g3, g4)"
      by (cases "standardMatch a1") (auto simp: parseA1ToGridRange_def)
    from standardMatch_SomeD [OF this] show ?thesis by blast
  qed
qed

lemma split_at_colon:
  assumes "x @ CHR '':'' # y = p @ CHR '':'' # q" and "CHR '':'' \<notin> set x" and "CHR '':'' \<notin> set y"
  shows "p = x \<and> q = y"
  using assms by (auto simp: append_eq_append_conv2 Cons_eq_append_conv append_eq_Cons_conv)

lemma parse_error:
  assumes "parseA1ToGridRange a1 sid = Inl e"
  shows "e = InvalidFormat a1"
proof (cases "rowOnlyMatch a1")
  case (Some m)
  with assms show ?thesis
    by (cases m) (simp add: parseA1ToGridRange_def Let_def)
next
  case None
  note row = None
  show ?thesis
  proof (cases "if list_ex isDigit a1 then None else colOnlyMatch a1")
    case (Some m)
    with row assms show ?thesis
      by (cases m) (simp add: parseA1ToGridRange_def Let_def)
  next
    case None
    with row assms show ?thesis
      by (cases "standardMatch a1") (auto simp: parseA1ToGridRange_def Let_def)
  qed
qed

lemma class_chars:
  "lettersOnly l \<Longrightarrow> c \<in> set l \<Longrightarrow> isLetter c"
  "digitsOnly d \<Longrightarrow> c \<in> set d \<Longrightarrow> isDigit c"
  by (simp_all add: lettersOnly_def digitsOnly_def list_all_iff)

lemma standardMatch_chars:
  assumes "standardMatch a1 = Some m" and "c \<in> set a1"
  shows "isLetter c \<or> isDigit c \<or> c = CHR '':''"
proof -
  obtain g1 g2 g3 g4 where "m = (g1, g2, g3, g4)" by (cases m)
  with assms(1) have "standardMatch a1 = Some (g1, g2, g3, g4)" by simp
  from standardMatch_SomeD [OF this] assms(2) show ?thesis
    by (auto dest: class_chars)
qed

lemma parse_chars:
  assumes "parseA1ToGridRange a1 sid = Inr g" and "c \<in> set a1"
  shows "isLetter c \<or> isDigit c \<or> c = CHR '':''"
  using parse_shapes [OF assms(1)] assms(2) by (auto dest: class_chars)

lemma parseA1Range_standard:
  assumes "parseA1Range a1 = Inr r"
  shows "parseA1ToGridRange a1 sid = Inr (a1GridRange sid r)"
proof -
  from assms obtain g1 g2 g3 g4 where m: "standardMatch a1 = Some (g1, g2, g3, g4)"
    by (cases "standardMatch a1") (auto simp: parseA1Range_def)
  have idx: "colLetterToIndex = colLettersToIndex"
    by (rule ext) (simp add: colLetterToIndex_def colLettersToIndex_def)
  from standardMatch_SomeD [OF m]
  consider (cell) "lettersOnly g1" "digitsOnly g2" "g3 = None" "g4 = None" "a1 = g1 @ g2"
    | (cells) l d where "lettersOnly g1" "digitsOnly g2" "g3 = Some l" "g4 = Some d"
        "lettersOnly l" "digitsOnly d" "a1 = g1 @ g2 @ CHR '':'' # l @ d"
    by blast
  then show ?thesis
  proof cases
    case cell
    from assms m cell have "r = \<lparr>startRow = parseInt10 g2 - 1, endRow = parseInt10 g2 - 1,
        startCol = colLettersToIndex g1, endCol = colLettersToIndex g1\<rparr>"
      by (simp add: parseA1Range_def Let_def idx)
    then show ?thesis
      unfolding cell(5) parse_cell [OF cell(1,2)] by (simp add: a1GridRange_def)
  next
    case cells
    from assms m cells have "r = \<lparr>startRow = parseInt10 g2 - 1, endRow = parseInt10 d - 1,
        startCol = colLettersToIndex g1, endCol = colLettersToIndex l\<rparr>"
      by (simp add: parseA1Range_def Let_def idx)
    then show ?thesis
      unfolding cells(7) parse_cells [OF cells(1,2,5,6)] by (simp add: a1GridRange_def)
  qed
qed

lemma lettersOnly_index: "lettersOnly l \<Longrightarrow> 0 \<le> colLettersToIndex l"
proof -
  assume l: "lettersOnly l"
  then have "list_all isUpper (toUpperCase l)" and "toUpperCase l \<noteq> []"
    by (simp add: lettersOnly_def toUpperCase_letters, simp add: lettersOnly_def toUpperCase_def)
  then have "1 \<le> foldl colStep 0 (toUpperCase l)" by (rule decode_pos)
  then show ?thesis by (simp add: colLettersToIndex_def)
qed

section \<open>The encoder and the decoders of cell addresses\<close>












section \<open>Grid ranges parsed from addresses\<close>

lemma single_bounds:
  assumes "CHR '':'' \<notin> set a1" and "singleSpan g"
  shows "axesPaired g \<and>
         (CHR '':'' \<notin> set a1 \<longrightarrow> singleSpan g) \<and>
         (\<forall>p q. a1 = p @ CHR '':'' # q \<longrightarrow>
            (case (parseA1ToGridRange p sid, parseA1ToGridRange q sid) of
               (Inr gp, Inr gq) \<Rightarrow> spans g gp gq
             | _ \<Rightarrow> False))"
proof -
  from assms(2) have "axesPaired g"
    by (auto simp: singleSpan_def axesPaired_def)
  moreover from assms(1) have "\<And>p q. a1 \<noteq> p @ CHR '':'' # q"
    by auto
  ultimately show ?thesis using assms(2) by simp
qed

lemma pair_bounds:
  assumes "CHR '':'' \<notin> set x" and "CHR '':'' \<notin> set y"
    and "parseA1ToGridRange x sid = Inr gx" and "parseA1ToGridRange y sid = Inr gy"
    and "spans g gx gy" and "axesPaired g"
  shows "axesPaired g \<and>
         (CHR '':'' \<notin> set (x @ CHR '':'' # y) \<longrightarrow> singleSpan g) \<and>
         (\<forall>p q. x @ CHR '':'' # y = p @ CHR '':'' # q \<longrightarrow>
            (case (parseA1ToGridRange p sid, parseA1ToGridRange q sid) of
               (Inr gp, Inr gq) \<Rightarrow> spans g gp gq
             | _ \<Rightarrow> False))"
proof -
  have "case (parseA1ToGridRange p sid, parseA1ToGridRange q sid) of
          (Inr gp, Inr gq) \<Rightarrow> spans g gp gq
        | _ \<Rightarrow> False"
    if "x @ CHR '':'' # y = p @ CHR '':'' # q" for p q
  proof -
    from split_at_colon [OF that assms(1,2)] have "p = x" "q = y" by simp_all
    then show ?thesis using assms(3,4,5) by simp
  qed
  then show ?thesis using assms(6) by simp
qed

lemma parse_structure:
  assumes "parseA1ToGridRange a1 sid = Inr g"
  shows "axesPaired g \<and>
         (CHR '':'' \<notin> set a1 \<longrightarrow> singleSpan g) \<and>
         (\<forall>p q. a1 = p @ CHR '':'' # q \<longrightarrow>
            (case (parseA1ToGridRange p sid, parseA1ToGridRange q sid) of
               (Inr gp, Inr gq) \<Rightarrow> spans g gp gq
             | _ \<Rightarrow> False)) \<and>
         (\<forall>r. parseA1Range a1 = Inr r \<longrightarrow> g = a1GridRange sid r)"
proof -
  have last: "\<forall>r. parseA1Range a1 = Inr r \<longrightarrow> g = a1GridRange sid r"
    using parseA1Range_standard [of a1 _ sid] assms by auto
  from parse_shapes [OF assms]
  consider (row) d where "digitsOnly d" "a1 = d"
    | (rows) d1 d2 where "digitsOnly d1" "digitsOnly d2" "a1 = d1 @ CHR '':'' # d2"
    | (col) l where "lettersOnly l" "a1 = l"
    | (cols) l1 l2 where "lettersOnly l1" "lettersOnly l2" "a1 = l1 @ CHR '':'' # l2"
    | (cell) l d where "lettersOnly l" "digitsOnly d" "a1 = l @ d"
    | (cells) l1 d1 l2 d2 where "lettersOnly l1" "digitsOnly d1" "lettersOnly l2" "digitsOnly d2"
        "a1 = l1 @ d1 @ CHR '':'' # l2 @ d2"
    by blast
  then have "axesPaired g \<and>
         (CHR '':'' \<notin> set a1 \<longrightarrow> singleSpan g) \<and>
         (\<forall>p q. a1 = p @ CHR '':'' # q \<longrightarrow>
            (case (parseA1ToGridRange p sid, parseA1ToGridRange q sid) of
               (Inr gp, Inr gq) \<Rightarrow> spans g gp gq
             | _ \<Rightarrow> False))"
  proof cases
    case row
    from assms have "singleSpan g"
      unfolding row(2) parse_row [OF row(1)] by (auto simp: singleSpan_def)
    with no_colon(2) [OF row(1)] show ?thesis
      unfolding row(2) by (rule single_bounds)
  next
    case col
    from assms have "singleSpan g"
      unfolding col(2) parse_column [OF col(1)] by (auto simp: singleSpan_def)
    with no_colon(1) [OF col(1)] show ?thesis
      unfolding col(2) by (rule single_bounds)
  next
    case cell
    from assms have "singleSpan g"
      unfolding cell(3) parse_cell [OF cell(1,2)] by (auto simp: singleSpan_def)
    moreover have "CHR '':'' \<notin> set (l @ d)"
      using no_colon(1) [OF cell(1)] no_colon(2) [OF cell(2)] by simp
    ultimately show ?thesis
      unfolding cell(3) by (intro single_bounds)
  next
    case rows
    from assms have g: "spans g
        \<lparr>sheetId = sid, startRowIndex = Some (parseInt10 d1 - 1),
         endRowIndex = Some (parseInt10 d1 - 1 + 1),
         startColumnIndex = None, endColumnIndex = None\<rparr>
        \<lparr>sheetId = sid, startRowIndex = Some (parseInt10 d2 - 1),
         endRowIndex = Some (parseInt10 d2 - 1 + 1),
         startColumnIndex = None, endColumnIndex = None\<rparr>" and "axesPaired g"
      unfolding rows(3) parse_rows [OF rows(1,2)] by (auto simp: spans_def axesPaired_def)
    with no_colon(2) [OF rows(1)] no_colon(2) [OF rows(2)]
      parse_row [OF rows(1)] parse_row [OF rows(2)]
    show ?thesis unfolding rows(3) by (intro pair_bounds)
  next
    case cols
    from assms have g: "spans g
        \<lparr>sheetId = sid, startRowIndex = None, endRowIndex = None,
         startColumnIndex = Some (colLettersToIndex l1),
         endColumnIndex = Some (colLettersToIndex l1 + 1)\<rparr>
        \<lparr>sheetId = sid, startRowIndex = None, endRowIndex = None,
         startColumnIndex = Some (colLettersToIndex l2),
         endColumnIndex = Some (colLettersToIndex l2 + 1)\<rparr>" and "axesPaired g"
      unfolding cols(3) parse_columns [OF cols(1,2)] by (auto simp: spans_def axesPaired_def)
    with no_colon(1) [OF cols(1)] no_colon(1) [OF cols(2)]
      parse_column [OF cols(1)] parse_column [OF cols(2)]
    show ?thesis unfolding cols(3) by (intro pair_bounds)
  next
    case cells
    from assms have g: "spans g
        \<lparr>sheetId = sid, startRowIndex = Some (parseInt10 d1 - 1),
         endRowIndex = Some (parseInt10 d1 - 1 + 1),
         startColumnIndex = Some (colLettersToIndex l1),
         endColumnIndex = Some (colLettersToIndex l1 + 1)\<rparr>
        \<lparr>sheetId = sid, startRowIndex = Some (parseInt10 d2 - 1),
         endRowIndex = Some (parseInt10 d2 - 1 + 1),
         startColumnIndex = Some (colLettersToIndex l2),
         endColumnIndex = Some (colLettersToIndex l2 + 1)\<rparr>" and "axesPaired g"
      unfolding cells(5) parse_cells [OF cells(1,2,3,4)]
      by (auto simp: spans_def axesPaired_def)
    moreover have "CHR '':'' \<notin> set (l1 @ d1)" "CHR '':'' \<notin> set (l2 @ d2)"
      using no_colon(1) [OF cells(1)] no_colon(2) [OF cells(2)]
        no_colon(1) [OF cells(3)] no_colon(2) [OF cells(4)] by simp_all
    moreover note parse_cell [OF cells(1,2), of sid] parse_cell [OF cells(3,4), of sid]
    ultimately have "axesPaired g \<and>
         (CHR '':'' \<notin> set ((l1 @ d1) @ CHR '':'' # (l2 @ d2)) \<longrightarrow> singleSpan g) \<and>
         (\<forall>p q. (l1 @ d1) @ CHR '':'' # (l2 @ d2) = p @ CHR '':'' # q \<longrightarrow>
            (case (parseA1ToGridRange p sid, parseA1ToGridRange q sid) of
               (Inr gp, Inr gq) \<Rightarrow> spans g gp gq
             | _ \<Rightarrow> False))"
      by (intro pair_bounds)
    then show ?thesis unfolding cells(5) by simp
  qed
  with last show ?thesis by blast
qed


lemma class_filters:
  "lettersOnly l \<Longrightarrow> filter isLetter l = l \<and> filter isDigit l = [] \<and> list_ex isLetter l"
  "digitsOnly d \<Longrightarrow> filter isDigit d = d \<and> filter isLetter d = [] \<and> list_ex isDigit d"
proof -
  assume l: "lettersOnly l"
  then obtain x xs where "l = x # xs" by (cases l) (simp_all add: lettersOnly_def)
  with l show "filter isLetter l = l \<and> filter isDigit l = [] \<and> list_ex isLetter l"
    by (auto simp: lettersOnly_def list_all_iff letter_not_digit filter_empty_conv
        filter_id_conv)
next
  assume d: "digitsOnly d"
  then obtain x xs where "d = x # xs" by (cases d) (simp_all add: digitsOnly_def)
  with d show "filter isDigit d = d \<and> filter isLetter d = [] \<and> list_ex isDigit d"
    by (auto simp: digitsOnly_def list_all_iff digit_not_letter filter_empty_conv
        filter_id_conv)
qed

lemma class_no_other:
  "lettersOnly l \<Longrightarrow> \<not> list_ex isDigit l"
  "digitsOnly d \<Longrightarrow> \<not> list_ex isLetter d"
  by (auto simp: lettersOnly_def digitsOnly_def list_all_iff list_ex_iff
      letter_not_digit digit_not_letter)

lemma parse_axes:
  assumes "parseA1ToGridRange a1 sid = Inr g"
  shows "sheetId g = sid \<and>
         (\<not> list_ex isLetter a1 \<longrightarrow>
            startRowIndex g \<noteq> None \<and> startColumnIndex g = None \<and> endColumnIndex g = None) \<and>
         (\<not> list_ex isDigit a1 \<longrightarrow>
            startColumnIndex g \<noteq> None \<and> startRowIndex g = None \<and> endRowIndex g = None) \<and>
         (list_ex isLetter a1 \<and> list_ex isDigit a1 \<longrightarrow>
            startRowIndex g \<noteq> None \<and> startColumnIndex g \<noteq> None) \<and>
         (CHR '':'' \<notin> set a1 \<longrightarrow>
            startRowIndex g =
              (if list_ex isDigit a1 then Some (parseInt10 (filter isDigit a1) - 1) else None) \<and>
            startColumnIndex g =
              (if list_ex isLetter a1 then Some (colLettersToIndex (filter isLetter a1)) else None))"
proof -
  from parse_shapes [OF assms]
  consider (row) d where "digitsOnly d" "a1 = d"
    | (rows) d1 d2 where "digitsOnly d1" "digitsOnly d2" "a1 = d1 @ CHR '':'' # d2"
    | (col) l where "lettersOnly l" "a1 = l"
    | (cols) l1 l2 where "lettersOnly l1" "lettersOnly l2" "a1 = l1 @ CHR '':'' # l2"
    | (cell) l d where "lettersOnly l" "digitsOnly d" "a1 = l @ d"
    | (cells) l1 d1 l2 d2 where "lettersOnly l1" "digitsOnly d1" "lettersOnly l2" "digitsOnly d2"
        "a1 = l1 @ d1 @ CHR '':'' # l2 @ d2"
    by blast
  then show ?thesis
  proof cases
    case row
    from assms have "g = \<lparr>sheetId = sid, startRowIndex = Some (parseInt10 d - 1),
        endRowIndex = Some (parseInt10 d - 1 + 1),
        startColumnIndex = None, endColumnIndex = None\<rparr>"
      unfolding row(2) parse_row [OF row(1)] by simp
    then show ?thesis
      unfolding row(2)
      using class_filters(2) [OF row(1)] class_no_other(2) [OF row(1)] by simp
  next
    case rows
    from assms have "g = \<lparr>sheetId = sid, startRowIndex = Some (parseInt10 d1 - 1),
        endRowIndex = Some (parseInt10 d2),
        startColumnIndex = None, endColumnIndex = None\<rparr>"
      unfolding rows(3) parse_rows [OF rows(1,2)] by simp
    then show ?thesis
      unfolding rows(3)
      using class_filters(2) [OF rows(1)] class_no_other(2) [OF rows(1)]
        class_no_other(2) [OF rows(2)] by simp
  next
    case col
    from assms have "g = \<lparr>sheetId = sid, startRowIndex = None, endRowIndex = None,
        startColumnIndex = Some (colLettersToIndex l),
        endColumnIndex = Some (colLettersToIndex l + 1)\<rparr>"
      unfolding col(2) parse_column [OF col(1)] by simp
    then show ?thesis
      unfolding col(2)
      using class_filters(1) [OF col(1)] class_no_other(1) [OF col(1)] by simp
  next
    case cols
    from assms have "g = \<lparr>sheetId = sid, startRowIndex = None, endRowIndex = None,
        startColumnIndex = Some (colLettersToIndex l1),
        endColumnIndex = Some (colLettersToIndex l2 + 1)\<rparr>"
      unfolding cols(3) parse_columns [OF cols(1,2)] by simp
    then show ?thesis
      unfolding cols(3)
      using class_filters(1) [OF cols(1)] class_no_other(1) [OF cols(1)]
        class_no_other(1) [OF cols(2)] by simp
  next
    case cell
    from assms have "g = \<lparr>sheetId = sid, startRowIndex = Some (parseInt10 d - 1),
        endRowIndex = Some (parseInt10 d - 1 + 1),
        startColumnIndex = Some (colLettersToIndex l),
        endColumnIndex = Some (colLettersToIndex l + 1)\<rparr>"
      unfolding cell(3) parse_cell [OF cell(1,2)] by simp
    then show ?thesis
      unfolding cell(3)
      using class_filters(1) [OF cell(1)] class_filters(2) [OF cell(2)] by simp
  next
    case cells
    from assms have "g = \<lparr>sheetId = sid, startRowIndex = Some (parseInt10 d1 - 1),
        endRowIndex = Some (parseInt10 d2),
        startColumnIndex = Some (colLettersToIndex l1),
        endColumnIndex = Some (colLettersToIndex l2 + 1)\<rparr>"
      unfolding cells(5) parse_cells [OF cells(1,2,3,4)] by simp
    then show ?thesis
      unfolding cells(5)
      using class_filters(1) [OF cells(1)] class_filters(2) [OF cells(2)] by simp
  qed
qed

text \<open>
  Claim C5, as stated, fails for an address written in reverse: \<open>5:3\<close> is accepted
  and gives the row band with start bound 4 and end bound 3.
\<close>

theorem parseA1ToGridRange_reversed_counterexample:
  "parseA1ToGridRange ''5:3'' 0 =
     Inr \<lparr>sheetId = 0, startRowIndex = Some 4, endRowIndex = Some 3,
          startColumnIndex = None, endColumnIndex = None\<rparr> \<and>
   \<not> (4 :: int) \<le> 3"
  by code_simp

text \<open>
  Claim C5, amended. For every grid range parsed from an address, with bounds below the
  limit of exact integers. The shape of the address decides the axes: an address
  without a letter is a row band and has row bounds and no column bound at all; an
  address without a digit is a column band and has column bounds and no row bound at
  all; an address with both has all four bounds. So each axis has both of its bounds or
  neither, and an unbounded axis is the absence of both, never a sentinel. The end
  bounds are exclusive: an address without a colon starts at the row number minus one
  and at the index of the column letters, and ends one past its start; an address
  \<open>p:q\<close> starts where the range of \<open>p\<close> starts and ends where the range of \<open>q\<close> ends. The
  order of \<open>p\<close> and \<open>q\<close> is not checked, so an end bound is at least its start bound
  only when \<open>q\<close> does not end before \<open>p\<close> starts. The range \<open>batchFormat\<close> builds from an
  address \<open>parseA1Range\<close> accepts is the same range.
\<close>

theorem parseA1ToGridRange_bounds:
  assumes "parseA1ToGridRange a1 sid = Inr g" and "safeRange g"
  shows "sheetId g = sid \<and> axesPaired g \<and>
         (\<not> list_ex isLetter a1 \<longrightarrow>
            startRowIndex g \<noteq> None \<and> startColumnIndex g = None \<and> endColumnIndex g = None) \<and>
         (\<not> list_ex isDigit a1 \<longrightarrow>
            startColumnIndex g \<noteq> None \<and> startRowIndex g = None \<and> endRowIndex g = None) \<and>
         (list_ex isLetter a1 \<and> list_ex isDigit a1 \<longrightarrow>
            startRowIndex g \<noteq> None \<and> startColumnIndex g \<noteq> None) \<and>
         (CHR '':'' \<notin> set a1 \<longrightarrow>
            singleSpan g \<and>
            startRowIndex g =
              (if list_ex isDigit a1 then Some (parseInt10 (filter isDigit a1) - 1) else None) \<and>
            startColumnIndex g =
              (if list_ex isLetter a1 then Some (colLettersToIndex (filter isLetter a1)) else None)) \<and>
         (\<forall>p q. a1 = p @ CHR '':'' # q \<longrightarrow>
            (case (parseA1ToGridRange p sid, parseA1ToGridRange q sid) of
               (Inr gp, Inr gq) \<Rightarrow> spans g gp gq
             | _ \<Rightarrow> False)) \<and>
         (\<forall>r. parseA1Range a1 = Inr r \<longrightarrow> g = a1GridRange sid r)"
  using parse_structure [OF assms(1)] parse_axes [OF assms(1)] by blast

theorem parseA1ToGridRange_bounds_witness:
  "parseA1ToGridRange ''A1:B2'' 7 =
     Inr \<lparr>sheetId = 7, startRowIndex = Some 0, endRowIndex = Some 2,
          startColumnIndex = Some 0, endColumnIndex = Some 2\<rparr> \<and>
   safeRange \<lparr>sheetId = 7, startRowIndex = Some 0, endRowIndex = Some 2,
              startColumnIndex = Some 0, endColumnIndex = Some 2\<rparr> \<and>
   (case (parseA1ToGridRange ''A1'' 7, parseA1ToGridRange ''B2'' 7) of
      (Inr gp, Inr gq) \<Rightarrow>
        spans \<lparr>sheetId = 7, startRowIndex = Some 0, endRowIndex = Some 2,
               startColumnIndex = Some 0, endColumnIndex = Some 2\<rparr> gp gq
    | _ \<Rightarrow> False) \<and>
   parseA1Range ''A1:B2'' = Inr \<lparr>startRow = 0, endRow = 1, startCol = 0, endCol = 1\<rparr> \<and>
   \<lparr>sheetId = 7, startRowIndex = Some 0, endRowIndex = Some 2,
    startColumnIndex = Some 0, endColumnIndex = Some 2\<rparr>
     = a1GridRange 7 \<lparr>startRow = 0, endRow = 1, startCol = 0, endCol = 1\<rparr> \<and>
   parseA1ToGridRange ''3'' 7 =
     Inr \<lparr>sheetId = 7, startRowIndex = Some 2, endRowIndex = Some 3,
          startColumnIndex = None, endColumnIndex = None\<rparr> \<and>
   singleSpan \<lparr>sheetId = 7, startRowIndex = Some 2, endRowIndex = Some 3,
               startColumnIndex = None, endColumnIndex = None\<rparr> \<and>
   parseA1ToGridRange ''C'' 7 =
     Inr \<lparr>sheetId = 7, startRowIndex = None, endRowIndex = None,
          startColumnIndex = Some 2, endColumnIndex = Some 3\<rparr> \<and>
   axesPaired \<lparr>sheetId = 7, startRowIndex = None, endRowIndex = None,
               startColumnIndex = Some 2, endColumnIndex = Some 3\<rparr>"
proof -
  let ?g = "\<lparr>sheetId = 7, startRowIndex = Some 0, endRowIndex = Some 2,
             startColumnIndex = Some 0, endColumnIndex = Some 2\<rparr>"
  let ?band = "\<lparr>sheetId = 7, startRowIndex = Some 2, endRowIndex = Some 3,
               startColumnIndex = None, endColumnIndex = None\<rparr>"
  let ?column = "\<lparr>sheetId = 7, startRowIndex = None, endRowIndex = None,
               startColumnIndex = Some 2, endColumnIndex = Some 3\<rparr>"
  have g: "parseA1ToGridRange ''A1:B2'' 7 = Inr ?g" by code_simp
  have band: "parseA1ToGridRange ''3'' 7 = Inr ?band" by code_simp
  have column: "parseA1ToGridRange ''C'' 7 = Inr ?column" by code_simp
  have safe: "safeRange ?g" "safeRange ?band" "safeRange ?column"
    by (simp_all add: safeRange_def boundBelowLimit_def belowLimit_def)
  have r: "parseA1Range ''A1:B2'' = Inr \<lparr>startRow = 0, endRow = 1, startCol = 0, endCol = 1\<rparr>"
    by code_simp
  have s: "''A1:B2'' = ''A1'' @ CHR '':'' # ''B2''" by simp
  have shape: "list_ex isLetter ''A1:B2'' \<and> list_ex isDigit ''A1:B2''"
    "\<not> list_ex isLetter ''3''" "CHR '':'' \<notin> set ''3''" "\<not> list_ex isDigit ''C''"
    by (simp_all add: isLetter_def isDigit_def isUpper_def isLower_def charCode_def)
  note pair = parseA1ToGridRange_bounds [OF g safe(1)]
  note single = parseA1ToGridRange_bounds [OF band safe(2)]
  note letters = parseA1ToGridRange_bounds [OF column safe(3)]
  from pair s have 1: "case (parseA1ToGridRange ''A1'' 7, parseA1ToGridRange ''B2'' 7) of
      (Inr gp, Inr gq) \<Rightarrow> spans ?g gp gq | _ \<Rightarrow> False"
    by blast
  from pair r have 2: "?g = a1GridRange 7 \<lparr>startRow = 0, endRow = 1, startCol = 0, endCol = 1\<rparr>"
    by blast
  from single shape(3) have 3: "singleSpan ?band" by blast
  from letters have 4: "axesPaired ?column" by blast
  from g safe(1) 1 r 2 band 3 column 4 show ?thesis by blast
qed

section \<open>Column text that is not made of letters\<close>

text \<open>
  The range parsers check an address against their patterns before they hand its
  column text to the decoder: an address that holds a character other than a letter, a
  digit or a colon is rejected with \<open>InvalidFormat\<close>, and the decoder only sees runs of
  letters, so the column bounds of a parsed range are proper indices.
\<close>

lemma parsers_validate_column_text:
  "((\<exists>c \<in> set a1. \<not> isLetter c \<and> \<not> isDigit c \<and> c \<noteq> CHR '':'')
      \<longrightarrow> parseA1ToGridRange a1 sid = Inl (InvalidFormat a1) \<and>
           parseA1Range a1 = Inl (InvalidFormat a1) \<and>
           a1ToRowCol a1 = Inl (InvalidFormat a1)) \<and>
   (parseA1ToGridRange a1 sid = Inr g \<longrightarrow>
      (\<forall>i. startColumnIndex g = Some i \<longrightarrow> 0 \<le> i) \<and>
      (\<forall>i. endColumnIndex g = Some i \<longrightarrow> 0 < i))"
proof (intro conjI impI)
  assume bad: "\<exists>c \<in> set a1. \<not> isLetter c \<and> \<not> isDigit c \<and> c \<noteq> CHR '':''"
  show "parseA1ToGridRange a1 sid = Inl (InvalidFormat a1)"
  proof (cases "parseA1ToGridRange a1 sid")
    case (Inl e)
    with parse_error [OF Inl] show ?thesis by simp
  next
    case (Inr g')
    from parse_chars [OF Inr] bad show ?thesis by blast
  qed
  show "parseA1Range a1 = Inl (InvalidFormat a1)"
  proof (cases "standardMatch a1")
    case None
    then show ?thesis by (simp add: parseA1Range_def)
  next
    case (Some m)
    from standardMatch_chars [OF Some] bad show ?thesis by blast
  qed
  show "a1ToRowCol a1 = Inl (InvalidFormat a1)"
  proof (cases "cellMatch a1")
    case None
    then show ?thesis by (simp add: a1ToRowCol_def)
  next
    case (Some m)
    obtain l d where m: "m = (l, d)" by (cases m)
    from Some m have "cellPrefix a1 = Some (l, d, [])"
      by (auto simp: cellMatch_def split: option.splits list.splits)
    from cellPrefix_SomeD [OF this] bad show ?thesis
      by (auto dest: class_chars)
  qed
next
  assume p: "parseA1ToGridRange a1 sid = Inr g"
  from parse_shapes [OF p]
  consider (row) d where "digitsOnly d" "a1 = d"
    | (rows) d1 d2 where "digitsOnly d1" "digitsOnly d2" "a1 = d1 @ CHR '':'' # d2"
    | (col) l where "lettersOnly l" "a1 = l"
    | (cols) l1 l2 where "lettersOnly l1" "lettersOnly l2" "a1 = l1 @ CHR '':'' # l2"
    | (cell) l d where "lettersOnly l" "digitsOnly d" "a1 = l @ d"
    | (cells) l1 d1 l2 d2 where "lettersOnly l1" "digitsOnly d1" "lettersOnly l2" "digitsOnly d2"
        "a1 = l1 @ d1 @ CHR '':'' # l2 @ d2"
    by blast
  then have "(\<forall>i. startColumnIndex g = Some i \<longrightarrow> 0 \<le> i) \<and>
      (\<forall>i. endColumnIndex g = Some i \<longrightarrow> 0 < i)"
  proof cases
    case row
    from p show ?thesis unfolding row(2) parse_row [OF row(1)] by auto
  next
    case rows
    from p show ?thesis unfolding rows(3) parse_rows [OF rows(1,2)] by auto
  next
    case col
    from p lettersOnly_index [OF col(1)] show ?thesis
      unfolding col(2) parse_column [OF col(1)] by auto
  next
    case cols
    from p lettersOnly_index [OF cols(1)] lettersOnly_index [OF cols(2)] show ?thesis
      unfolding cols(3) parse_columns [OF cols(1,2)] by auto
  next
    case cell
    from p lettersOnly_index [OF cell(1)] show ?thesis
      unfolding cell(3) parse_cell [OF cell(1,2)] by auto
  next
    case cells
    from p lettersOnly_index [OF cells(1)] lettersOnly_index [OF cells(3)] show ?thesis
      unfolding cells(5) parse_cells [OF cells(1,2,3,4)] by auto
  qed
  then show "\<forall>i. startColumnIndex g = Some i \<longrightarrow> 0 \<le> i"
    and "\<forall>i. endColumnIndex g = Some i \<longrightarrow> 0 < i"
    by simp_all
qed

text \<open>
  Claim C9 is right about what the decoder is meant to do and the code misses it on
  one path. The decoder has no check of its own, and \<open>batchFormat\<close> hands the column
  of a width setting (and the columns of \<open>hideColumns\<close>) to it without a pattern in
  front, unlike every other caller: for the column text \<open>1\<close> the decoder answers
  \<open>- 16\<close>, no \<open>InvalidFormat\<close> is raised, and the batch with that index is submitted.
\<close>

theorem batchFormat_column_text_unchecked:
  "colLetterToIndex ''1'' = - 16 \<and> colLettersToIndex ''1'' = - 16 \<and>
   batchFormat exampleRemote ''Data''
     \<lparr>cellFormats = [], columnWidths = [(''1'', 100)], rowHeights = [], hideColumns = None,
      merges = [], freezeRows = None, freezeColumns = None\<rparr>
   = (Inr (Some ()),
      [[UpdateDimensionProperties
          \<lparr>dimSheetId = 7, dimension = COLUMNS, startIndex = - 16, endIndex = - 15\<rparr>
          (PixelSize 100) ''pixelSize'']])"
  by code_simp

end
